theory Spec2Isabelle
  imports Main "HOL-Library.Word" "HOL-Library.Monad_Syntax"
begin

section \<open>URL based listener authentication (auth\_url.c)\<close>

text \<open>
  The module forwards listener connect/disconnect and stream start/end events to an
  external HTTP endpoint. The four event handlers, the response-header callback and the
  registration function of \<^verbatim>\<open>src/auth_url.c\<close> are embedded below as functions on an
  explicit program state. A null or dangling pointer dereference is undefined behaviour
  in C; in the model the function yields \<open>None\<close> there.

  Integer types follow the LP64 data model: \<^verbatim>\<open>int\<close> and \<^verbatim>\<open>unsigned\<close> are 32 bits,
  \<^verbatim>\<open>long unsigned\<close>, \<^verbatim>\<open>size_t\<close> and \<^verbatim>\<open>time_t\<close> are 64 bits; arithmetic wraps around.
  C strings are \<open>string\<close>s; \<^verbatim>\<open>char *\<close> fields that the code tests against NULL are
  \<open>string option\<close>. Allocation failure (\<^verbatim>\<open>strdup\<close>, \<^verbatim>\<open>calloc\<close>) is not modelled.
\<close>

subsection \<open>Data model\<close>

type_synonym addr = nat
type_synonym c_int = "32 word"
type_synonym c_unsigned = "32 word"
type_synonym c_ulong = "64 word"
type_synonym size_t = "64 word"
type_synonym time_t = "64 word"

datatype auth_result = AUTH_OK | AUTH_FAILED

text \<open>\<^verbatim>\<open>auth_client\<close>: the event context. \<open>client\<close> is NULL for stream start/end events.\<close>

record auth_client =
  mount :: string
  client :: "addr option"

text \<open>The options this module sets on its libcurl handle before each request.\<close>

record CURL =
  CURLOPT_URL :: "string option"
  CURLOPT_POSTFIELDS :: "string option"
  CURLOPT_WRITEHEADER :: "auth_client option"

datatype curl_option = URL string | POSTFIELDS string | WRITEHEADER auth_client

text \<open>
  \<^verbatim>\<open>auth_url\<close> (lines 69-80). The fields \<^verbatim>\<open>username\<close> and \<^verbatim>\<open>password\<close> are prefixed here,
  since the client record has fields of the same name. The error buffer is not modelled.
  \<open>auth_header_len\<close> is an \<^verbatim>\<open>int\<close> that only ever holds 0 (from \<^verbatim>\<open>calloc\<close>) or a
  \<^verbatim>\<open>strlen\<close>; it is never negative, and its conversion to \<^verbatim>\<open>size_t\<close> is \<open>nat\<close>.
\<close>

record auth_url =
  addurl :: "string option"
  removeurl :: "string option"
  stream_start :: "string option"
  stream_end :: "string option"
  url_username :: "string option"
  url_password :: "string option"
  auth_header :: string
  auth_header_len :: int
  handle :: CURL

text \<open>\<^verbatim>\<open>auth_t\<close>: the reference count and the module's private state pointer.\<close>

record auth_t =
  refcount :: c_int
  state :: "auth_url option"

text \<open>\<^verbatim>\<open>connection_t\<close>; the field \<^verbatim>\<open>id\<close> is named \<open>con_id\<close> (\<open>id\<close> is the identity of HOL).\<close>

record connection_t =
  con_id :: c_ulong
  ip :: string
  con_time :: time_t

text \<open>
  \<^verbatim>\<open>client_t\<close>. \<open>user_agent\<close> is what \<^verbatim>\<open>httpp_getvar (client->parser, "user-agent")\<close>
  returns (NULL when the request carried no such header). The user name, the password
  and the address are C strings that are present.
\<close>

record client_t =
  con :: connection_t
  user_agent :: "string option"
  username :: string
  password :: string
  authenticated :: c_int
  auth :: "addr option"

text \<open>\<^verbatim>\<open>mount_proxy\<close>; its field \<^verbatim>\<open>auth\<close> is named \<open>mount_auth\<close>.\<close>

record mount_proxy =
  mount_auth :: "addr option"

record ice_config_t =
  hostname :: string
  mounts :: "(string \<times> mount_proxy) list"

text \<open>
  What a handler does to the outside world, in order: taking and releasing the global
  configuration, the blocking POST (URL, body, libcurl's result code) and the warning
  logged for a failed request (with the endpoint URL).
\<close>

datatype event = ConfigGet | ConfigRelease | Perform string string c_int | Warn string

text \<open>
  The program state: the global configuration, the clients and authenticators on the
  heap, the clock read by \<^verbatim>\<open>time(NULL)\<close> and the events so far.
\<close>

record sys =
  config :: ice_config_t
  clients :: "addr \<rightharpoonup> client_t"
  auths :: "addr \<rightharpoonup> auth_t"
  now :: time_t
  trace :: "event list"

text \<open>
  The collaborators outside this file, taken as parameters: the escaper of util.c, the
  remote server's answer to a POST of a body to a URL (the response header lines and
  libcurl's result code, 0 for success) and the post-admission hook of auth.c, of which
  only the returned \<^verbatim>\<open>int\<close> is used.
\<close>

record extern =
  util_url_escape :: "string \<Rightarrow> string"
  curl_response :: "string \<Rightarrow> string \<Rightarrow> string list \<times> c_int"
  auth_postprocess_client :: "auth_client \<Rightarrow> sys \<Rightarrow> c_int"

subsection \<open>C library functions\<close>

definition tolower :: "char \<Rightarrow> char" where
  "tolower c =
     (if 65 \<le> (of_char c :: nat) \<and> (of_char c :: nat) \<le> 90
      then char_of ((of_char c :: nat) + 32) else c)"

text \<open>The character a C string holds at its front; the end of the list is the NUL.\<close>

definition front :: "string \<Rightarrow> char" where
  "front s = (case s of [] \<Rightarrow> CHR 0x00 | c # _ \<Rightarrow> c)"

text \<open>
  \<^verbatim>\<open>strncasecmp\<close>: compares at most \<open>n\<close> characters ignoring case, stops at the first
  difference or at a NUL, and returns the difference of the two characters.
\<close>

fun strncasecmp :: "string \<Rightarrow> string \<Rightarrow> nat \<Rightarrow> int" where
  "strncasecmp s1 s2 0 = 0"
| "strncasecmp s1 s2 (Suc n) =
     (let c1 = tolower (front s1); c2 = tolower (front s2)
      in if c1 \<noteq> c2 then int (of_char c1) - int (of_char c2)
         else if c1 = CHR 0x00 then 0
         else strncasecmp (tl s1) (tl s2) n)"

text \<open>\<^verbatim>\<open>%lu\<close>: an unsigned number in decimal.\<close>

function fmt_lu :: "nat \<Rightarrow> string" where
  "fmt_lu n = (if n < 10 then [''0123456789'' ! n]
               else fmt_lu (n div 10) @ [''0123456789'' ! (n mod 10)])"
  by pat_completeness auto
termination
  by (relation "measure (\<lambda>n. n)") auto

declare fmt_lu.simps [simp del]

text \<open>
  \<^verbatim>\<open>snprintf (post, size, ...)\<close> leaves in the buffer the formatted text cut to
  \<open>n - 1\<close> characters, \<open>n\<close> being the size of the buffer. The argument is the text
  after substitution.
\<close>

definition snprintf :: "nat \<Rightarrow> string \<Rightarrow> string" where
  "snprintf n formatted = take (n - 1) formatted"

subsection \<open>Collaborators in other files of the repository\<close>

text \<open>
  Modelled from the spec: \<^verbatim>\<open>config_get_config\<close> and \<^verbatim>\<open>config_release_config\<close> (cfgfile.c)
  are missing. The spec has them acquire and release the configuration snapshot; the
  model records both in the trace.
\<close>

definition config_get_config :: "sys \<Rightarrow> sys" where
  "config_get_config s = s\<lparr>trace := trace s @ [ConfigGet]\<rparr>"

definition config_release_config :: "sys \<Rightarrow> sys" where
  "config_release_config s = s\<lparr>trace := trace s @ [ConfigRelease]\<rparr>"

text \<open>
  Modelled from the spec: \<^verbatim>\<open>config_find_mount\<close> (cfgfile.c) is missing. The spec gives
  \<open>find_mount(view, path) -> MountInfo?\<close> on the mountpoint table.
\<close>

definition config_find_mount :: "ice_config_t \<Rightarrow> string \<Rightarrow> mount_proxy option" where
  "config_find_mount cfg m = map_of (mounts cfg) m"

text \<open>
  Modelled from the spec: \<^verbatim>\<open>auth_release\<close> (auth.c) is missing. The spec has it unpin the
  authenticator: the reference count is decremented, and the authenticator is destroyed
  when the count reaches zero.
\<close>

definition auth_release :: "addr \<Rightarrow> sys \<Rightarrow> sys option" where
  "auth_release a s = do {
     authenticator \<leftarrow> auths s a;
     let r = refcount authenticator - 1;
     if r \<noteq> 0 then Some (s\<lparr>auths := (auths s)(a \<mapsto> authenticator\<lparr>refcount := r\<rparr>)\<rparr>)
     else Some (s\<lparr>auths := (auths s)(a := None)\<rparr>)
   }"

text \<open>\<^verbatim>\<open>WARN2 ("auth to server %s failed with %s", url, errormsg)\<close>.\<close>

definition WARN2 :: "string \<Rightarrow> sys \<Rightarrow> sys" where
  "WARN2 url s = s\<lparr>trace := trace s @ [Warn url]\<rparr>"

subsection \<open>The response callbacks (lines 95-116)\<close>

text \<open>
  \<^verbatim>\<open>handle_returned_header (ptr, size, nmemb, stream)\<close>. \<open>ptr\<close> is the header line,
  \<open>sz\<close> the parameter \<^verbatim>\<open>size\<close> (a constant of HOL), \<open>auth_user\<close> the event context
  \<^verbatim>\<open>stream\<close> registered with \<^verbatim>\<open>CURLOPT_WRITEHEADER\<close>. The result is the
  returned \<^verbatim>\<open>int\<close>, \<^verbatim>\<open>(int)(unsigned)(size * nmemb)\<close>, and the state.
\<close>

definition handle_returned_header ::
    "string \<Rightarrow> size_t \<Rightarrow> size_t \<Rightarrow> auth_client \<Rightarrow> sys \<Rightarrow> (c_int \<times> sys) option" where
  "handle_returned_header ptr sz nmemb auth_user s =
     (let bytes = (ucast (sz * nmemb) :: c_unsigned) in
      case client auth_user of
        None \<Rightarrow> Some (bytes, s)
      | Some p \<Rightarrow> do {
          cl \<leftarrow> clients s p;
          a \<leftarrow> auth cl;
          au \<leftarrow> auths s a;
          url \<leftarrow> state au;
          if strncasecmp ptr (auth_header url) (nat (auth_header_len url)) = 0
          then Some (bytes, s\<lparr>clients := (clients s)(p \<mapsto> cl\<lparr>authenticated := 1\<rparr>)\<rparr>)
          else Some (bytes, s)
        })"

text \<open>\<^verbatim>\<open>handle_returned_data\<close>: the response body is read and dropped.\<close>

definition handle_returned_data :: "string \<Rightarrow> size_t \<Rightarrow> size_t \<Rightarrow> c_int" where
  "handle_returned_data ptr sz nmemb = ucast (sz * nmemb)"

subsection \<open>The transport: libcurl\<close>

text \<open>
  The handle belongs to the \<^verbatim>\<open>auth_url\<close> that the authenticator at address \<open>a\<close> points
  to: \<^verbatim>\<open>curl_easy_setopt (url->handle, ...)\<close> reads \<^verbatim>\<open>url->handle\<close> and stores the option.
\<close>

definition curl_easy_setopt :: "addr \<Rightarrow> curl_option \<Rightarrow> sys \<Rightarrow> sys option" where
  "curl_easy_setopt a opt s = do {
     au \<leftarrow> auths s a;
     url \<leftarrow> state au;
     let h = handle url;
     let h' = (case opt of
                 URL u \<Rightarrow> h\<lparr>CURLOPT_URL := Some u\<rparr>
               | POSTFIELDS b \<Rightarrow> h\<lparr>CURLOPT_POSTFIELDS := Some b\<rparr>
               | WRITEHEADER w \<Rightarrow> h\<lparr>CURLOPT_WRITEHEADER := Some w\<rparr>);
     Some (s\<lparr>auths := (auths s)(a \<mapsto> au\<lparr>state := Some (url\<lparr>handle := h'\<rparr>)\<rparr>)\<rparr>)
   }"

text \<open>
  Every response header line is offered to the header callback registered by
  \<^verbatim>\<open>auth_get_url_auth\<close>, with \<^verbatim>\<open>size\<close> 1 and \<^verbatim>\<open>nmemb\<close> the length of the line. What
  libcurl does with the count the callback returns is not part of the model.
\<close>

fun deliver_headers :: "string list \<Rightarrow> auth_client \<Rightarrow> sys \<Rightarrow> sys option" where
  "deliver_headers [] stream s = Some s"
| "deliver_headers (l # ls) stream s = do {
     (n, s') \<leftarrow> handle_returned_header l 1 (of_nat (length l)) stream s;
     deliver_headers ls stream s'
   }"

text \<open>
  \<^verbatim>\<open>curl_easy_perform\<close>: one blocking POST of the stored body to the stored URL. The
  callback runs during the call; the result is libcurl's code, 0 for success.
\<close>

definition curl_easy_perform :: "extern \<Rightarrow> addr \<Rightarrow> sys \<Rightarrow> (c_int \<times> sys) option" where
  "curl_easy_perform ext a s = do {
     au \<leftarrow> auths s a;
     url \<leftarrow> state au;
     u \<leftarrow> CURLOPT_URL (handle url);
     body \<leftarrow> CURLOPT_POSTFIELDS (handle url);
     stream \<leftarrow> CURLOPT_WRITEHEADER (handle url);
     let (headers, res) = curl_response ext u body;
     s' \<leftarrow> deliver_headers headers stream (s\<lparr>trace := trace s @ [Perform u body res]\<rparr>);
     Some (res, s')
   }"

subsection \<open>The event handlers (lines 119-306)\<close>

definition auth_removeurl_client :: "extern \<Rightarrow> auth_client \<Rightarrow> sys \<Rightarrow> (auth_result \<times> sys) option" where
  "auth_removeurl_client ext auth_user s = do {
     p \<leftarrow> client auth_user;
     cl \<leftarrow> clients s p;
     a \<leftarrow> auth cl;
     au \<leftarrow> auths s a;
     url \<leftarrow> state au;
     let duration = now s - con_time (con cl);
     case removeurl url of
       None \<Rightarrow> Some (AUTH_OK, s)
     | Some remove_url \<Rightarrow> do {
         let s = config_get_config s;
         let server = util_url_escape ext (hostname (config s));
         let s = config_release_config s;
         let username' = util_url_escape ext (username cl);
         let password' = util_url_escape ext (password cl);
         let mount' = util_url_escape ext (mount auth_user);
         let post = snprintf 1024
               (''action=remove&server='' @ server @ ''client='' @ fmt_lu (unat (con_id (con cl)))
                @ ''&mount='' @ mount'
                @ ''&user='' @ username' @ ''&pass='' @ password'
                @ ''&duration='' @ fmt_lu (unat duration));
         s \<leftarrow> curl_easy_setopt a (URL remove_url) s;
         s \<leftarrow> curl_easy_setopt a (POSTFIELDS post) s;
         s \<leftarrow> curl_easy_setopt a (WRITEHEADER auth_user) s;
         (res, s) \<leftarrow> curl_easy_perform ext a s;
         let s = (if res \<noteq> 0 then WARN2 remove_url s else s);
         cl \<leftarrow> clients s p;
         a' \<leftarrow> auth cl;
         s \<leftarrow> auth_release a' s;
         cl \<leftarrow> clients s p;
         Some (AUTH_OK, s\<lparr>clients := (clients s)(p \<mapsto> cl\<lparr>auth := None\<rparr>)\<rparr>)
       }
   }"

definition auth_addurl_client :: "extern \<Rightarrow> auth_client \<Rightarrow> sys \<Rightarrow> (auth_result \<times> sys) option" where
  "auth_addurl_client ext auth_user s = do {
     p \<leftarrow> client auth_user;
     cl \<leftarrow> clients s p;
     a \<leftarrow> auth cl;
     au \<leftarrow> auths s a;
     url \<leftarrow> state au;
     case addurl url of
       None \<Rightarrow> Some (AUTH_OK, s)
     | Some add_url \<Rightarrow> do {
         let s = config_get_config s;
         let server = util_url_escape ext (hostname (config s));
         let s = config_release_config s;
         let agent = (case user_agent cl of None \<Rightarrow> ''-'' | Some v \<Rightarrow> v);
         let user_agent' = util_url_escape ext agent;
         let username' = util_url_escape ext (username cl);
         let password' = util_url_escape ext (password cl);
         let mount' = util_url_escape ext (mount auth_user);
         let ipaddr = util_url_escape ext (ip (con cl));
         let post = snprintf 1024
               (''action=auth&server='' @ server @ ''&client='' @ fmt_lu (unat (con_id (con cl)))
                @ ''&mount='' @ mount'
                @ ''&user='' @ username' @ ''&pass='' @ password'
                @ ''&ip='' @ ipaddr @ ''&agent='' @ user_agent');
         s \<leftarrow> curl_easy_setopt a (URL add_url) s;
         s \<leftarrow> curl_easy_setopt a (POSTFIELDS post) s;
         s \<leftarrow> curl_easy_setopt a (WRITEHEADER auth_user) s;
         (res, s) \<leftarrow> curl_easy_perform ext a s;
         if res \<noteq> 0 then Some (AUTH_FAILED, WARN2 add_url s)
         else do {
           cl \<leftarrow> clients s p;
           if authenticated cl \<noteq> 0
           then (if auth_postprocess_client ext auth_user s <s 0
                 then Some (AUTH_FAILED, s)
                 else Some (AUTH_OK, s))
           else Some (AUTH_FAILED, s)
         }
       }
   }"

text \<open>
  \<^verbatim>\<open>mountinfo->auth->refcount++\<close>, on the authenticator at address \<open>a\<close>.
\<close>

definition refcount_incr :: "addr \<Rightarrow> sys \<Rightarrow> sys option" where
  "refcount_incr a s = do {
     au \<leftarrow> auths s a;
     Some (s\<lparr>auths := (auths s)(a \<mapsto> au\<lparr>refcount := refcount au + 1\<rparr>)\<rparr>)
   }"

definition url_stream_start :: "extern \<Rightarrow> auth_client \<Rightarrow> sys \<Rightarrow> (auth_result \<times> sys) option" where
  "url_stream_start ext auth_user s = do {
     let s = config_get_config s;
     mountinfo \<leftarrow> config_find_mount (config s) (mount auth_user);
     a \<leftarrow> mount_auth mountinfo;
     au \<leftarrow> auths s a;
     url \<leftarrow> state au;
     case stream_start url of
       None \<Rightarrow> Some (AUTH_OK, config_release_config s)
     | Some stream_start_url \<Rightarrow> do {
         let server = util_url_escape ext (hostname (config s));
         a' \<leftarrow> mount_auth mountinfo;
         s \<leftarrow> refcount_incr a' s;
         let s = config_release_config s;
         let mount' = util_url_escape ext (mount auth_user);
         let post = snprintf 4096 (''action=start&mount='' @ mount' @ ''&server='' @ server);
         s \<leftarrow> curl_easy_setopt a (URL stream_start_url) s;
         s \<leftarrow> curl_easy_setopt a (POSTFIELDS post) s;
         s \<leftarrow> curl_easy_setopt a (WRITEHEADER auth_user) s;
         (res, s) \<leftarrow> curl_easy_perform ext a s;
         let s = (if res \<noteq> 0 then WARN2 stream_start_url s else s);
         s \<leftarrow> auth_release a s;
         Some (AUTH_OK, s)
       }
   }"

definition url_stream_end :: "extern \<Rightarrow> auth_client \<Rightarrow> sys \<Rightarrow> (auth_result \<times> sys) option" where
  "url_stream_end ext auth_user s = do {
     let s = config_get_config s;
     mountinfo \<leftarrow> config_find_mount (config s) (mount auth_user);
     a \<leftarrow> mount_auth mountinfo;
     au \<leftarrow> auths s a;
     url \<leftarrow> state au;
     case stream_end url of
       None \<Rightarrow> Some (AUTH_OK, config_release_config s)
     | Some stream_end_url \<Rightarrow> do {
         let server = util_url_escape ext (hostname (config s));
         a' \<leftarrow> mount_auth mountinfo;
         s \<leftarrow> refcount_incr a' s;
         let s = config_release_config s;
         let mount' = util_url_escape ext (mount auth_user);
         let post = snprintf 4096 (''action=end&mount='' @ mount' @ ''&server='' @ server);
         s \<leftarrow> curl_easy_setopt a (URL stream_end_url) s;
         s \<leftarrow> curl_easy_setopt a (POSTFIELDS post) s;
         s \<leftarrow> curl_easy_setopt a (WRITEHEADER auth_user) s;
         (res, s) \<leftarrow> curl_easy_perform ext a s;
         let s = (if res \<noteq> 0 then WARN2 stream_end_url s else s);
         s \<leftarrow> auth_release a s;
         Some (AUTH_OK, s)
       }
   }"

subsection \<open>Registration (lines 324-380)\<close>

text \<open>The option list is a linked list of name/value pairs; the loop visits it in order.\<close>

fun options_loop :: "(string \<times> string) list \<Rightarrow> auth_url \<Rightarrow> auth_url" where
  "options_loop [] url_info = url_info"
| "options_loop ((name, val) # options) url_info =
     (let u = url_info;
          u = (if name = ''username'' then u\<lparr>url_username := Some val\<rparr> else u);
          u = (if name = ''password'' then u\<lparr>url_password := Some val\<rparr> else u);
          u = (if name = ''add'' then u\<lparr>addurl := Some val\<rparr> else u);
          u = (if name = ''remove'' then u\<lparr>removeurl := Some val\<rparr> else u);
          u = (if name = ''start'' then u\<lparr>stream_start := Some val\<rparr> else u);
          u = (if name = ''end'' then u\<lparr>stream_end := Some val\<rparr> else u);
          u = (if name = ''header'' then u\<lparr>auth_header := val\<rparr> else u)
      in options_loop options u)"

text \<open>
  \<^verbatim>\<open>auth_get_url_auth\<close>. \<open>curl_ok\<close> says whether \<^verbatim>\<open>curl_easy_init\<close> returns a handle. The
  callbacks stored in the authenticator are the functions above; the function pointers
  themselves are not part of the model.
\<close>

definition auth_get_url_auth ::
    "bool \<Rightarrow> addr \<Rightarrow> (string \<times> string) list \<Rightarrow> sys \<Rightarrow> (c_int \<times> sys) option" where
  "auth_get_url_auth curl_ok authenticator options s = do {
     au \<leftarrow> auths s authenticator;
     let url_info = \<lparr>addurl = None, removeurl = None, stream_start = None, stream_end = None,
                     url_username = None, url_password = None,
                     auth_header = ''icecast-auth-user: 1'' @ [CHR 0x0D, CHR 0x0A],
                     auth_header_len = 0,
                     handle = \<lparr>CURLOPT_URL = None, CURLOPT_POSTFIELDS = None,
                               CURLOPT_WRITEHEADER = None\<rparr>\<rparr>;
     let url_info = options_loop options url_info;
     if \<not> curl_ok then Some (- 1, s\<lparr>auths := (auths s)(authenticator := None)\<rparr>)
     else do {
       let url_info = url_info\<lparr>auth_header_len := int (length (auth_header url_info))\<rparr>;
       Some (0, s\<lparr>auths := (auths s)(authenticator \<mapsto> au\<lparr>state := Some url_info\<rparr>)\<rparr>)
     }
   }"

section \<open>Vocabulary of the properties\<close>

text \<open>
  The configured header line matches a response line when \<^verbatim>\<open>strncasecmp\<close> over the
  stored length returns 0; \<open>admit\<close> is the write \<^verbatim>\<open>client->authenticated = 1\<close>;
  \<open>delivered\<close> is the state after a list of header lines has been offered to the
  callback of a valid client; \<open>request\<close> is the state after the three
  \<^verbatim>\<open>curl_easy_setopt\<close> calls of a handler.
\<close>

definition header_matches :: "auth_url \<Rightarrow> string \<Rightarrow> bool" where
  "header_matches url l = (strncasecmp l (auth_header url) (nat (auth_header_len url)) = 0)"

definition admit :: "addr \<Rightarrow> client_t \<Rightarrow> sys \<Rightarrow> sys" where
  "admit p cl s = s\<lparr>clients := (clients s)(p \<mapsto> cl\<lparr>authenticated := 1\<rparr>)\<rparr>"

definition delivered :: "auth_url \<Rightarrow> string list \<Rightarrow> addr \<Rightarrow> client_t \<Rightarrow> sys \<Rightarrow> sys" where
  "delivered url hs p cl s = (if \<exists>l\<in>set hs. header_matches url l then admit p cl s else s)"

definition request :: "addr \<Rightarrow> auth_t \<Rightarrow> auth_url \<Rightarrow> string \<Rightarrow> string \<Rightarrow> auth_client \<Rightarrow> sys \<Rightarrow> sys" where
  "request a x url u b w s =
     s\<lparr>auths := (auths s)(a \<mapsto> x\<lparr>state := Some (url\<lparr>handle := (handle url)
          \<lparr>CURLOPT_URL := Some u, CURLOPT_POSTFIELDS := Some b, CURLOPT_WRITEHEADER := Some w\<rparr>\<rparr>)\<rparr>)\<rparr>"

text \<open>
  The discipline on the configuration snapshot, read off a trace: \<open>held\<close> counts the
  snapshots taken and not yet released; a release needs a held snapshot, a POST needs
  none held, and none is held at the end.
\<close>

fun snapshot_discipline :: "event list \<Rightarrow> nat \<Rightarrow> bool" where
  "snapshot_discipline [] held = (held = 0)"
| "snapshot_discipline (ConfigGet # es) held = snapshot_discipline es (Suc held)"
| "snapshot_discipline (ConfigRelease # es) held = (0 < held \<and> snapshot_discipline es (held - 1))"
| "snapshot_discipline (Perform u b r # es) held = (held = 0 \<and> snapshot_discipline es held)"
| "snapshot_discipline (Warn u # es) held = snapshot_discipline es held"

definition flow_events :: "event list \<Rightarrow> bool" where
  "flow_events es = (es = [] \<or> es = [ConfigGet, ConfigRelease]
      \<or> (\<exists>u b r. es = [ConfigGet, ConfigRelease, Perform u b r])
      \<or> (\<exists>u b r v. es = [ConfigGet, ConfigRelease, Perform u b r, Warn v]))"

subsection \<open>The escaper and the scenario of the specification\<close>

text \<open>
  Modelled from the spec: \<^verbatim>\<open>util_url_escape\<close> (util.c) is missing. The spec has it
  percent-encode every byte outside an allowlist of letters, digits and a small fixed
  punctuation set; its scenario leaves \<open>.\<close> as it is and writes \<open>/\<close> as \<open>%2F\<close>. The
  punctuation set is taken to be \<open>- _ . ~\<close>, the hexadecimal digits upper case.
\<close>

definition unreserved :: "char \<Rightarrow> bool" where
  "unreserved c =
     (let n = (of_char c :: nat)
      in (48 \<le> n \<and> n \<le> 57) \<or> (65 \<le> n \<and> n \<le> 90) \<or> (97 \<le> n \<and> n \<le> 122)
         \<or> c \<in> set ''-_.~'')"

definition hexchar :: "nat \<Rightarrow> char" where
  "hexchar n = ''0123456789ABCDEF'' ! n"

definition url_escape :: "string \<Rightarrow> string" where
  "url_escape src =
     concat (map (\<lambda>c. if unreserved c then [c]
                       else [CHR ''%'', hexchar ((of_char c :: nat) div 16),
                             hexchar ((of_char c :: nat) mod 16)]) src)"

text \<open>
  The scenario of the specification: an authenticator for the mount \<open>/live\<close>, a listener
  with connection id 42, and a remote server that answers with given header lines and
  a given result code.
\<close>

definition stub :: "string list \<Rightarrow> c_int \<Rightarrow> extern" where
  "stub hs res = \<lparr>util_url_escape = url_escape, curl_response = (\<lambda>u b. (hs, res)),
                  auth_postprocess_client = (\<lambda>w s. 0)\<rparr>"

definition listener :: client_t where
  "listener = \<lparr>con = \<lparr>con_id = 42, ip = ''127.0.0.1'', con_time = 1000\<rparr>,
               user_agent = Some ''TestAgent/1.0'', username = ''fred'',
               password = ''hunter2'', authenticated = 0, auth = Some 1\<rparr>"

definition url_auth :: auth_url where
  "url_auth = \<lparr>addurl = Some ''http://auth.example/a'', removeurl = Some ''http://auth.example/r'',
               stream_start = Some ''http://auth.example/s'',
               stream_end = Some ''http://auth.example/e'',
               url_username = Some ''fred'', url_password = Some ''hunter2'',
               auth_header = ''icecast-auth-user: 1'' @ [CHR 0x0D, CHR 0x0A],
               auth_header_len = 22,
               handle = \<lparr>CURLOPT_URL = None, CURLOPT_POSTFIELDS = None,
                         CURLOPT_WRITEHEADER = None\<rparr>\<rparr>"

definition scenario :: "string \<Rightarrow> sys" where
  "scenario host =
     \<lparr>config = \<lparr>hostname = host, mounts = [(''/live'', \<lparr>mount_auth = Some 1\<rparr>)]\<rparr>,
      clients = [7 \<mapsto> listener],
      auths = [1 \<mapsto> \<lparr>refcount = 1, state = Some url_auth\<rparr>],
      now = 4600, trace = []\<rparr>"

definition listener_event :: auth_client where
  "listener_event = \<lparr>mount = ''/live'', client = Some 7\<rparr>"

definition source_event :: auth_client where
  "source_event = \<lparr>mount = ''/live'', client = None\<rparr>"

subsection \<open>Header lines\<close>

text \<open>
  A line matches a header prefix ignoring case when its first characters, as many as the
  prefix has, are those of the prefix up to case. \<open>long_line\<close> is a header line of
  \<open>2\<^sup>3\<^sup>1\<close> bytes. \<open>registered\<close> is the scenario after \<open>auth_get_url_auth\<close> has set up
  the authenticator with no \<open>header\<close> option.
\<close>

definition prefix_matches_ci :: "string \<Rightarrow> string \<Rightarrow> bool" where
  "prefix_matches_ci pre line = (map tolower (take (length pre) line) = map tolower pre)"

definition long_line :: string where
  "long_line = replicate (2 ^ 31) (CHR ''a'')"

definition fresh :: sys where
  "fresh = (scenario ''localhost'')\<lparr>auths := [1 \<mapsto> \<lparr>refcount = 1, state = None\<rparr>]\<rparr>"

definition registered :: sys where
  "registered = (case auth_get_url_auth True 1 [(''add'', ''http://auth.example/a'')] fresh of
                   None \<Rightarrow> fresh | Some (r, s) \<Rightarrow> s)"

subsection \<open>Posted bodies\<close>

text \<open>
  The bodies of the POSTs in a trace, and those a handler has issued when it returns.
  \<open>no_remove_scenario\<close> is the scenario with no remove-URL configured; \<open>long_host\<close> is a
  host name of 1000 characters.
\<close>

fun bodies :: "event list \<Rightarrow> string list" where
  "bodies [] = []"
| "bodies (Perform u b r # es) = b # bodies es"
| "bodies (ConfigGet # es) = bodies es"
| "bodies (ConfigRelease # es) = bodies es"
| "bodies (Warn u # es) = bodies es"

definition posted :: "(auth_result \<times> sys) option \<Rightarrow> string list" where
  "posted out = (case out of None \<Rightarrow> [] | Some (r, s) \<Rightarrow> bodies (trace s))"

definition no_remove_scenario :: sys where
  "no_remove_scenario =
     (scenario ''localhost'')
       \<lparr>auths := [1 \<mapsto> \<lparr>refcount = 1, state = Some (url_auth\<lparr>removeurl := None\<rparr>)\<rparr>]\<rparr>"

definition long_host :: string where
  "long_host = replicate 1000 (CHR ''a'')"

section \<open>Properties\<close>

subsection \<open>The header callback and the transport\<close>

lemma handle_returned_header_no_client:
  "client auth_user = None \<Longrightarrow>
   handle_returned_header ptr sz nmemb auth_user s = Some (ucast (sz * nmemb), s)"
  by (simp add: handle_returned_header_def)

lemma handle_returned_header_client:
  assumes "client auth_user = Some p" "clients s p = Some cl" "auth cl = Some a"
    "auths s a = Some x" "state x = Some url"
  shows "handle_returned_header ptr sz nmemb auth_user s =
         Some (ucast (sz * nmemb), if header_matches url ptr then admit p cl s else s)"
  using assms by (simp add: handle_returned_header_def header_matches_def admit_def)

lemma deliver_headers_no_client:
  "client auth_user = None \<Longrightarrow> deliver_headers hs auth_user s = Some s"
  by (induction hs) (simp_all add: handle_returned_header_no_client)

lemma admit_admit: "admit p (cl\<lparr>authenticated := 1\<rparr>) (admit p cl s) = admit p cl s"
  by (simp add: admit_def)

lemma deliver_headers_client:
  assumes "client auth_user = Some p" "clients s p = Some cl" "auth cl = Some a"
    "auths s a = Some x" "state x = Some url"
  shows "deliver_headers hs auth_user s = Some (delivered url hs p cl s)"
  using assms
proof (induction hs arbitrary: s cl)
  case Nil
  then show ?case by (simp add: delivered_def)
next
  case (Cons l ls)
  show ?case
  proof (cases "header_matches url l")
    case True
    have wf': "clients (admit p cl s) p = Some (cl\<lparr>authenticated := 1\<rparr>)"
      "auth (cl\<lparr>authenticated := 1\<rparr>) = Some a" "auths (admit p cl s) a = Some x"
      using Cons.prems by (simp_all add: admit_def)
    have "deliver_headers ls auth_user (admit p cl s)
          = Some (delivered url ls p (cl\<lparr>authenticated := 1\<rparr>) (admit p cl s))"
      by (rule Cons.IH [OF Cons.prems(1) wf' Cons.prems(5)])
    then show ?thesis
      using True Cons.prems
      by (simp add: handle_returned_header_client [OF Cons.prems] delivered_def admit_admit)
  next
    case False
    then show ?thesis
      using Cons.IH [OF Cons.prems]
      by (simp add: handle_returned_header_client [OF Cons.prems] delivered_def)
  qed
qed

lemma header_matches_handle [simp]:
  "header_matches (url\<lparr>handle := h\<rparr>) l = header_matches url l"
  by (simp add: header_matches_def)

lemma curl_easy_setopt_thrice:
  assumes "auths s a = Some x" "state x = Some url"
  shows "do { s \<leftarrow> curl_easy_setopt a (URL u) s;
              s \<leftarrow> curl_easy_setopt a (POSTFIELDS b) s;
              s \<leftarrow> curl_easy_setopt a (WRITEHEADER w) s;
              f s } = f (request a x url u b w s)"
  using assms by (simp add: curl_easy_setopt_def request_def)

lemma curl_easy_perform_no_client:
  assumes "client w = None"
  shows "curl_easy_perform ext a (request a x url u b w s) =
         Some (snd (curl_response ext u b),
               (request a x url u b w s)\<lparr>trace := trace s @ [Perform u b (snd (curl_response ext u b))]\<rparr>)"
  using assms
  by (simp add: curl_easy_perform_def request_def split_def Let_def deliver_headers_no_client)

lemma curl_easy_perform_client:
  assumes "client w = Some p" "clients s p = Some cl" "auth cl = Some a"
  shows "curl_easy_perform ext a (request a x url u b w s) =
         Some (snd (curl_response ext u b),
               delivered url (fst (curl_response ext u b)) p cl
                 ((request a x url u b w s)\<lparr>trace := trace s @ [Perform u b (snd (curl_response ext u b))]\<rparr>))"
proof -
  let ?url' = "url\<lparr>handle := (handle url)
          \<lparr>CURLOPT_URL := Some u, CURLOPT_POSTFIELDS := Some b, CURLOPT_WRITEHEADER := Some w\<rparr>\<rparr>"
  let ?s1 = "(request a x url u b w s)\<lparr>trace := trace s @ [Perform u b (snd (curl_response ext u b))]\<rparr>"
  have "deliver_headers hs w ?s1 = Some (delivered ?url' hs p cl ?s1)" for hs
    by (rule deliver_headers_client [where a = a and x = "x\<lparr>state := Some ?url'\<rparr>"])
       (use assms in \<open>simp_all add: request_def\<close>)
  then show ?thesis
    by (simp add: curl_easy_perform_def request_def split_def Let_def delivered_def)
qed

lemma auth_addurl_client_no_url:
  assumes "client auth_user = Some p" "clients s p = Some cl" "auth cl = Some a"
    "auths s a = Some x" "state x = Some url" "addurl url = None"
  shows "auth_addurl_client ext auth_user s = Some (AUTH_OK, s)"
  using assms by (simp add: auth_addurl_client_def)

lemma auth_addurl_client_run:
  fixes ext auth_user s p cl a x url u
  defines "post \<equiv> snprintf 1024
               (''action=auth&server='' @ util_url_escape ext (hostname (config s))
                @ ''&client='' @ fmt_lu (unat (con_id (con cl)))
                @ ''&mount='' @ util_url_escape ext (mount auth_user)
                @ ''&user='' @ util_url_escape ext (username cl)
                @ ''&pass='' @ util_url_escape ext (password cl)
                @ ''&ip='' @ util_url_escape ext (ip (con cl))
                @ ''&agent='' @ util_url_escape ext (case user_agent cl of None \<Rightarrow> ''-'' | Some v \<Rightarrow> v))"
  defines "res \<equiv> snd (curl_response ext u post)"
  defines "hs \<equiv> fst (curl_response ext u post)"
  defines "s' \<equiv> delivered url hs p cl
                 ((request a x url u post auth_user s)
                    \<lparr>trace := trace s @ [ConfigGet, ConfigRelease, Perform u post res]\<rparr>)"
  assumes "client auth_user = Some p" "clients s p = Some cl" "auth cl = Some a"
    "auths s a = Some x" "state x = Some url" "addurl url = Some u"
  shows "auth_addurl_client ext auth_user s =
         Some (if res \<noteq> 0 then (AUTH_FAILED, WARN2 u s')
               else if (\<exists>l\<in>set hs. header_matches url l) \<or> authenticated cl \<noteq> 0
               then (if auth_postprocess_client ext auth_user s' <s 0
                     then (AUTH_FAILED, s') else (AUTH_OK, s'))
               else (AUTH_FAILED, s'))"
proof -
  let ?s0 = "s\<lparr>trace := trace s @ [ConfigGet, ConfigRelease]\<rparr>"
  have wf0: "clients ?s0 p = Some cl" "auths ?s0 a = Some x"
    using assms by simp_all
  have perf: "curl_easy_perform ext a (request a x url u post auth_user ?s0) = Some (res, s')"
    using curl_easy_perform_client [OF assms(5) wf0(1) assms(7), of ext x url u post]
    by (simp add: res_def hs_def s'_def request_def delivered_def admit_def)
  have cl': "clients s' p = Some (if \<exists>l\<in>set hs. header_matches url l then cl\<lparr>authenticated := 1\<rparr> else cl)"
    using assms(6) by (simp add: s'_def delivered_def admit_def request_def)
  show ?thesis
    using assms(5-10) perf [unfolded post_def] cl'
    by (simp add: auth_addurl_client_def config_get_config_def config_release_config_def
        curl_easy_setopt_thrice [OF wf0(2) assms(9)])
qed

lemma auth_removeurl_client_no_url:
  assumes "client auth_user = Some p" "clients s p = Some cl" "auth cl = Some a"
    "auths s a = Some x" "state x = Some url" "removeurl url = None"
  shows "auth_removeurl_client ext auth_user s = Some (AUTH_OK, s)"
  using assms by (simp add: auth_removeurl_client_def)

lemma auth_removeurl_client_run:
  fixes ext auth_user s p cl a x url u
  defines "post \<equiv> snprintf 1024
               (''action=remove&server='' @ util_url_escape ext (hostname (config s))
                @ ''client='' @ fmt_lu (unat (con_id (con cl)))
                @ ''&mount='' @ util_url_escape ext (mount auth_user)
                @ ''&user='' @ util_url_escape ext (username cl)
                @ ''&pass='' @ util_url_escape ext (password cl)
                @ ''&duration='' @ fmt_lu (unat (now s - con_time (con cl))))"
  defines "res \<equiv> snd (curl_response ext u post)"
  assumes "client auth_user = Some p" "clients s p = Some cl" "auth cl = Some a"
    "auths s a = Some x" "state x = Some url" "removeurl url = Some u"
  shows "\<exists>s' cl'. auth_removeurl_client ext auth_user s = Some (AUTH_OK, s')
           \<and> trace s' = trace s @ [ConfigGet, ConfigRelease, Perform u post res]
                          @ (if res \<noteq> 0 then [Warn u] else [])
           \<and> clients s' p = Some cl' \<and> auth cl' = None
           \<and> (refcount x = 1 \<longrightarrow> auths s' a = None)
           \<and> (refcount x \<noteq> 1 \<longrightarrow> (\<exists>x'. auths s' a = Some x' \<and> refcount x' = refcount x - 1))"
proof -
  let ?s0 = "s\<lparr>trace := trace s @ [ConfigGet, ConfigRelease]\<rparr>"
  let ?s1 = "delivered url (fst (curl_response ext u post)) p cl
                 ((request a x url u post auth_user s)
                    \<lparr>trace := trace s @ [ConfigGet, ConfigRelease, Perform u post res]\<rparr>)"
  have wf0: "clients ?s0 p = Some cl" "auths ?s0 a = Some x"
    using assms by simp_all
  have perf: "curl_easy_perform ext a (request a x url u post auth_user ?s0) = Some (res, ?s1)"
    using curl_easy_perform_client [OF assms(3) wf0(1) assms(5), of ext x url u post]
    by (simp add: res_def request_def delivered_def admit_def)
  show ?thesis
    using assms(3-8) perf [unfolded post_def]
    by (simp add: auth_removeurl_client_def config_get_config_def config_release_config_def
        curl_easy_setopt_thrice [OF wf0(2) assms(7)] auth_release_def WARN2_def
        delivered_def admit_def request_def post_def Let_def)
qed

lemma url_stream_start_no_url:
  assumes "config_find_mount (config s) (mount auth_user) = Some mountinfo"
    "mount_auth mountinfo = Some a" "auths s a = Some x" "state x = Some url"
    "stream_start url = None"
  shows "url_stream_start ext auth_user s
         = Some (AUTH_OK, s\<lparr>trace := trace s @ [ConfigGet, ConfigRelease]\<rparr>)"
  using assms
  by (simp add: url_stream_start_def config_get_config_def config_release_config_def)

lemma url_stream_start_run:
  fixes ext auth_user s mountinfo a x url u
  defines "post \<equiv> snprintf 4096
               (''action=start&mount='' @ util_url_escape ext (mount auth_user)
                @ ''&server='' @ util_url_escape ext (hostname (config s)))"
  defines "res \<equiv> snd (curl_response ext u post)"
  assumes "client auth_user = None"
    "config_find_mount (config s) (mount auth_user) = Some mountinfo"
    "mount_auth mountinfo = Some a" "auths s a = Some x" "state x = Some url"
    "stream_start url = Some u"
  shows "\<exists>s'. url_stream_start ext auth_user s = Some (AUTH_OK, s')
           \<and> trace s' = trace s @ [ConfigGet, ConfigRelease, Perform u post res]
                          @ (if res \<noteq> 0 then [Warn u] else [])
           \<and> (refcount x = 0 \<longrightarrow> auths s' a = None)
           \<and> (refcount x \<noteq> 0 \<longrightarrow> (\<exists>x'. auths s' a = Some x' \<and> refcount x' = refcount x))
           \<and> clients s' = clients s \<and> config s' = config s"
proof -
  let ?x1 = "x\<lparr>refcount := refcount x + 1\<rparr>"
  let ?s0 = "s\<lparr>auths := (auths s)(a \<mapsto> ?x1), trace := trace s @ [ConfigGet, ConfigRelease]\<rparr>"
  let ?s1 = "(request a ?x1 url u post auth_user ?s0)
                    \<lparr>trace := trace s @ [ConfigGet, ConfigRelease, Perform u post res]\<rparr>"
  have wf0: "auths ?s0 a = Some ?x1" "state ?x1 = Some url"
    using assms by simp_all
  have perf: "curl_easy_perform ext a (request a ?x1 url u post auth_user ?s0) = Some (res, ?s1)"
    using curl_easy_perform_no_client [OF assms(3), of ext a ?x1 url u post ?s0]
    by (simp add: res_def)
  show ?thesis
    using assms(3-8) perf [unfolded post_def]
    by (simp add: url_stream_start_def config_get_config_def config_release_config_def
        refcount_incr_def
        curl_easy_setopt_thrice [OF wf0] auth_release_def WARN2_def
        request_def post_def Let_def)
qed

lemma url_stream_end_no_url:
  assumes "config_find_mount (config s) (mount auth_user) = Some mountinfo"
    "mount_auth mountinfo = Some a" "auths s a = Some x" "state x = Some url"
    "stream_end url = None"
  shows "url_stream_end ext auth_user s
         = Some (AUTH_OK, s\<lparr>trace := trace s @ [ConfigGet, ConfigRelease]\<rparr>)"
  using assms
  by (simp add: url_stream_end_def config_get_config_def config_release_config_def)

lemma url_stream_end_run:
  fixes ext auth_user s mountinfo a x url u
  defines "post \<equiv> snprintf 4096
               (''action=end&mount='' @ util_url_escape ext (mount auth_user)
                @ ''&server='' @ util_url_escape ext (hostname (config s)))"
  defines "res \<equiv> snd (curl_response ext u post)"
  assumes "client auth_user = None"
    "config_find_mount (config s) (mount auth_user) = Some mountinfo"
    "mount_auth mountinfo = Some a" "auths s a = Some x" "state x = Some url"
    "stream_end url = Some u"
  shows "\<exists>s'. url_stream_end ext auth_user s = Some (AUTH_OK, s')
           \<and> trace s' = trace s @ [ConfigGet, ConfigRelease, Perform u post res]
                          @ (if res \<noteq> 0 then [Warn u] else [])
           \<and> (refcount x = 0 \<longrightarrow> auths s' a = None)
           \<and> (refcount x \<noteq> 0 \<longrightarrow> (\<exists>x'. auths s' a = Some x' \<and> refcount x' = refcount x))
           \<and> clients s' = clients s \<and> config s' = config s"
proof -
  let ?x1 = "x\<lparr>refcount := refcount x + 1\<rparr>"
  let ?s0 = "s\<lparr>auths := (auths s)(a \<mapsto> ?x1), trace := trace s @ [ConfigGet, ConfigRelease]\<rparr>"
  let ?s1 = "(request a ?x1 url u post auth_user ?s0)
                    \<lparr>trace := trace s @ [ConfigGet, ConfigRelease, Perform u post res]\<rparr>"
  have wf0: "auths ?s0 a = Some ?x1" "state ?x1 = Some url"
    using assms by simp_all
  have perf: "curl_easy_perform ext a (request a ?x1 url u post auth_user ?s0) = Some (res, ?s1)"
    using curl_easy_perform_no_client [OF assms(3), of ext a ?x1 url u post ?s0]
    by (simp add: res_def)
  show ?thesis
    using assms(3-8) perf [unfolded post_def]
    by (simp add: url_stream_end_def config_get_config_def config_release_config_def
        refcount_incr_def
        curl_easy_setopt_thrice [OF wf0] auth_release_def WARN2_def
        request_def post_def Let_def)
qed

lemma handle_returned_header_trace:
  "handle_returned_header ptr sz nmemb w s = Some (r, s') \<Longrightarrow> trace s' = trace s"
  by (auto simp: handle_returned_header_def Let_def split: option.splits bind_splits if_splits)

lemma deliver_headers_trace:
  "deliver_headers hs w s = Some s' \<Longrightarrow> trace s' = trace s"
proof (induction hs arbitrary: s)
  case Nil
  then show ?case by simp
next
  case (Cons l ls)
  then show ?case
    by (auto split: bind_splits dest: handle_returned_header_trace)
qed

lemma curl_easy_setopt_trace:
  "curl_easy_setopt a opt s = Some s' \<Longrightarrow> trace s' = trace s"
  by (auto simp: curl_easy_setopt_def Let_def split: bind_splits)

lemma refcount_incr_trace:
  "refcount_incr a s = Some s' \<Longrightarrow> trace s' = trace s"
  by (auto simp: refcount_incr_def split: bind_splits)

lemma auth_release_trace:
  "auth_release a s = Some s' \<Longrightarrow> trace s' = trace s"
  by (auto simp: auth_release_def Let_def split: bind_splits if_splits)

lemma curl_easy_perform_trace:
  "curl_easy_perform ext a s = Some (res, s') \<Longrightarrow> \<exists>u b. trace s' = trace s @ [Perform u b res]"
  by (auto simp: curl_easy_perform_def Let_def split_def split: bind_splits dest!: deliver_headers_trace)

lemma flow_events_discipline: "flow_events es \<Longrightarrow> snapshot_discipline es 0"
  by (auto simp: flow_events_def)

lemma auth_addurl_client_trace:
  assumes "auth_addurl_client ext auth_user s = Some (r, s')"
  shows "\<exists>es. trace s' = trace s @ es \<and> flow_events es"
proof -
  obtain p where p: "client auth_user = Some p"
    using assms by (cases "client auth_user") (simp_all add: auth_addurl_client_def)
  obtain cl where cl: "clients s p = Some cl"
    using assms p by (cases "clients s p") (simp_all add: auth_addurl_client_def)
  obtain a where a: "auth cl = Some a"
    using assms p cl by (cases "auth cl") (simp_all add: auth_addurl_client_def)
  obtain x where x: "auths s a = Some x"
    using assms p cl a by (cases "auths s a") (simp_all add: auth_addurl_client_def)
  obtain url where url: "state x = Some url"
    using assms p cl a x by (cases "state x") (simp_all add: auth_addurl_client_def)
  show ?thesis
  proof (cases "addurl url")
    case None
    then show ?thesis
      using assms auth_addurl_client_no_url [OF p cl a x url None, of ext]
      by (simp add: flow_events_def)
  next
    case (Some u)
    show ?thesis
      using assms auth_addurl_client_run [OF p cl a x url Some, of ext]
      by (auto simp: flow_events_def WARN2_def delivered_def admit_def request_def
          split: if_splits)
  qed
qed

subsection \<open>The add flow\<close>

text \<open>
  C1. The add flow returns \<open>AUTH_OK\<close> at once, and leaves the state as it is, when no
  add-URL is configured. Otherwise it issues one POST and returns \<open>AUTH_FAILED\<close> when
  the transport call fails, \<open>AUTH_FAILED\<close> when the call succeeds and the client's
  authenticated flag is not set, \<open>AUTH_FAILED\<close> when the flag is set and the
  post-processing step returns a negative result, and \<open>AUTH_OK\<close> when the flag is set and
  post-processing succeeds. The event is one of a client whose authenticator is alive.
\<close>

theorem auth_addurl_client_verdict:
  assumes "client auth_user = Some p" "clients s p = Some cl" "auth cl = Some a"
    "auths s a = Some x" "state x = Some url"
  shows "case addurl url of
           None \<Rightarrow> auth_addurl_client ext auth_user s = Some (AUTH_OK, s)
         | Some u \<Rightarrow>
             (\<exists>r s' cl' body res.
                auth_addurl_client ext auth_user s = Some (r, s')
                \<and> trace s' = trace s @ [ConfigGet, ConfigRelease, Perform u body res]
                               @ (if res \<noteq> 0 then [Warn u] else [])
                \<and> res = snd (curl_response ext u body)
                \<and> clients s' p = Some cl'
                \<and> r = (if res \<noteq> 0 then AUTH_FAILED
                       else if authenticated cl' = 0 then AUTH_FAILED
                       else if auth_postprocess_client ext auth_user s' <s 0 then AUTH_FAILED
                       else AUTH_OK))"
proof (cases "addurl url")
  case None
  then show ?thesis
    using auth_addurl_client_no_url [OF assms None, of ext] by simp
next
  case (Some u)
  show ?thesis
    using auth_addurl_client_run [OF assms Some, of ext] assms(2)
    by (simp add: Some WARN2_def delivered_def admit_def request_def)
qed

theorem auth_addurl_client_verdict_witness:
  "client listener_event = Some 7 \<and> clients (scenario ''localhost'') 7 = Some listener
   \<and> auth listener = Some 1
   \<and> auths (scenario ''localhost'') 1 = Some \<lparr>refcount = 1, state = Some url_auth\<rparr>
   \<and> (\<exists>r s'. auth_addurl_client (stub [] 0) listener_event (scenario ''localhost'') = Some (r, s'))"
  using auth_addurl_client_verdict [of listener_event 7 "scenario ''localhost''" listener 1
      "\<lparr>refcount = 1, state = Some url_auth\<rparr>" url_auth "stub [] 0"]
  by (auto simp: listener_event_def scenario_def listener_def url_auth_def)

subsection \<open>Traces of the flows\<close>

lemma auth_removeurl_client_trace:
  assumes "auth_removeurl_client ext auth_user s = Some (r, s')"
  shows "\<exists>es. trace s' = trace s @ es \<and> flow_events es"
proof -
  obtain p where p: "client auth_user = Some p"
    using assms by (cases "client auth_user") (simp_all add: auth_removeurl_client_def)
  obtain cl where cl: "clients s p = Some cl"
    using assms p by (cases "clients s p") (simp_all add: auth_removeurl_client_def)
  obtain a where a: "auth cl = Some a"
    using assms p cl by (cases "auth cl") (simp_all add: auth_removeurl_client_def)
  obtain x where x: "auths s a = Some x"
    using assms p cl a by (cases "auths s a") (simp_all add: auth_removeurl_client_def)
  obtain url where url: "state x = Some url"
    using assms p cl a x by (cases "state x") (simp_all add: auth_removeurl_client_def)
  show ?thesis
  proof (cases "removeurl url")
    case None
    then show ?thesis
      using assms auth_removeurl_client_no_url [OF p cl a x url None, of ext]
      by (simp add: flow_events_def)
  next
    case (Some u)
    show ?thesis
      using assms auth_removeurl_client_run [OF p cl a x url Some, of ext]
      by (auto simp: flow_events_def split: if_splits)
  qed
qed

lemma url_stream_start_unfold:
  assumes "config_find_mount (config s) (mount auth_user) = Some mountinfo"
    "mount_auth mountinfo = Some a" "auths s a = Some x" "state x = Some url"
    "stream_start url = Some u"
  shows "url_stream_start ext auth_user s =
         curl_easy_perform ext a
           (request a (x\<lparr>refcount := refcount x + 1\<rparr>) url u
              (snprintf 4096
                 (''action=start&mount='' @ util_url_escape ext (mount auth_user)
                  @ ''&server='' @ util_url_escape ext (hostname (config s))))
              auth_user
              (s\<lparr>auths := (auths s)(a \<mapsto> x\<lparr>refcount := refcount x + 1\<rparr>),
                 trace := trace s @ [ConfigGet, ConfigRelease]\<rparr>))
         \<bind> (\<lambda>(res, s1). auth_release a (if res \<noteq> 0 then WARN2 u s1 else s1)
                 \<bind> (\<lambda>s2. Some (AUTH_OK, s2)))"
proof -
  let ?x1 = "x\<lparr>refcount := refcount x + 1\<rparr>"
  let ?s0 = "s\<lparr>auths := (auths s)(a \<mapsto> ?x1), trace := trace s @ [ConfigGet, ConfigRelease]\<rparr>"
  have wf0: "auths ?s0 a = Some ?x1" "state ?x1 = Some url"
    using assms by simp_all
  show ?thesis
    using assms
    by (simp add: url_stream_start_def config_get_config_def config_release_config_def
        refcount_incr_def curl_easy_setopt_thrice [OF wf0] Let_def)
qed

lemma url_stream_end_unfold:
  assumes "config_find_mount (config s) (mount auth_user) = Some mountinfo"
    "mount_auth mountinfo = Some a" "auths s a = Some x" "state x = Some url"
    "stream_end url = Some u"
  shows "url_stream_end ext auth_user s =
         curl_easy_perform ext a
           (request a (x\<lparr>refcount := refcount x + 1\<rparr>) url u
              (snprintf 4096
                 (''action=end&mount='' @ util_url_escape ext (mount auth_user)
                  @ ''&server='' @ util_url_escape ext (hostname (config s))))
              auth_user
              (s\<lparr>auths := (auths s)(a \<mapsto> x\<lparr>refcount := refcount x + 1\<rparr>),
                 trace := trace s @ [ConfigGet, ConfigRelease]\<rparr>))
         \<bind> (\<lambda>(res, s1). auth_release a (if res \<noteq> 0 then WARN2 u s1 else s1)
                 \<bind> (\<lambda>s2. Some (AUTH_OK, s2)))"
proof -
  let ?x1 = "x\<lparr>refcount := refcount x + 1\<rparr>"
  let ?s0 = "s\<lparr>auths := (auths s)(a \<mapsto> ?x1), trace := trace s @ [ConfigGet, ConfigRelease]\<rparr>"
  have wf0: "auths ?s0 a = Some ?x1" "state ?x1 = Some url"
    using assms by simp_all
  show ?thesis
    using assms
    by (simp add: url_stream_end_def config_get_config_def config_release_config_def
        refcount_incr_def curl_easy_setopt_thrice [OF wf0] Let_def)
qed

lemma request_trace [simp]: "trace (request a x url u b w s) = trace s"
  by (simp add: request_def)

lemma perform_release_trace:
  assumes "curl_easy_perform ext a (request a x url u b w s)
           \<bind> (\<lambda>(res, s1). auth_release a (if res \<noteq> 0 then WARN2 u s1 else s1)
                 \<bind> (\<lambda>s2. Some (AUTH_OK, s2))) = Some (r, s')"
  shows "\<exists>es. trace s' = trace s @ es
           \<and> ((\<exists>v c k. es = [Perform v c k]) \<or> (\<exists>v c k. es = [Perform v c k, Warn u]))"
proof -
  from assms obtain res s1 where
    perf: "curl_easy_perform ext a (request a x url u b w s) = Some (res, s1)"
    and rel: "auth_release a (if res \<noteq> 0 then WARN2 u s1 else s1) = Some s'"
    by (auto split: bind_splits)
  from curl_easy_perform_trace [OF perf] obtain v c where
    t1: "trace s1 = trace s @ [Perform v c res]" by auto
  from auth_release_trace [OF rel] have
    "trace s' = trace (if res \<noteq> 0 then WARN2 u s1 else s1)" .
  with t1 show ?thesis
    by (auto simp: WARN2_def)
qed

lemma url_stream_start_trace:
  assumes "url_stream_start ext auth_user s = Some (r, s')"
  shows "\<exists>es. trace s' = trace s @ es \<and> flow_events es"
proof -
  obtain mi where mi: "config_find_mount (config s) (mount auth_user) = Some mi"
    using assms by (cases "config_find_mount (config s) (mount auth_user)")
      (simp_all add: url_stream_start_def config_get_config_def)
  obtain a where a: "mount_auth mi = Some a"
    using assms mi by (cases "mount_auth mi")
      (simp_all add: url_stream_start_def config_get_config_def)
  obtain x where x: "auths s a = Some x"
    using assms mi a by (cases "auths s a")
      (simp_all add: url_stream_start_def config_get_config_def)
  obtain url where url: "state x = Some url"
    using assms mi a x by (cases "state x")
      (simp_all add: url_stream_start_def config_get_config_def)
  show ?thesis
  proof (cases "stream_start url")
    case None
    then show ?thesis
      using assms url_stream_start_no_url [OF mi a x url None, of ext]
      by (auto simp: flow_events_def)
  next
    case (Some u)
    from perform_release_trace [OF assms [unfolded url_stream_start_unfold [OF mi a x url Some]]]
    show ?thesis
      by (auto simp: flow_events_def)
  qed
qed

lemma url_stream_end_trace:
  assumes "url_stream_end ext auth_user s = Some (r, s')"
  shows "\<exists>es. trace s' = trace s @ es \<and> flow_events es"
proof -
  obtain mi where mi: "config_find_mount (config s) (mount auth_user) = Some mi"
    using assms by (cases "config_find_mount (config s) (mount auth_user)")
      (simp_all add: url_stream_end_def config_get_config_def)
  obtain a where a: "mount_auth mi = Some a"
    using assms mi by (cases "mount_auth mi")
      (simp_all add: url_stream_end_def config_get_config_def)
  obtain x where x: "auths s a = Some x"
    using assms mi a by (cases "auths s a")
      (simp_all add: url_stream_end_def config_get_config_def)
  obtain url where url: "state x = Some url"
    using assms mi a x by (cases "state x")
      (simp_all add: url_stream_end_def config_get_config_def)
  show ?thesis
  proof (cases "stream_end url")
    case None
    then show ?thesis
      using assms url_stream_end_no_url [OF mi a x url None, of ext]
      by (auto simp: flow_events_def)
  next
    case (Some u)
    from perform_release_trace [OF assms [unfolded url_stream_end_unfold [OF mi a x url Some]]]
    show ?thesis
      by (auto simp: flow_events_def)
  qed
qed


subsection \<open>The configuration snapshot\<close>

text \<open>
  C8. In each of the four event flows that returns, the configuration snapshot is
  released before the blocking transport call is issued, and none is held when the flow
  returns: the events the flow adds to the trace keep the snapshot discipline.
\<close>

theorem config_snapshot_released_before_perform:
  "(auth_addurl_client ext auth_user s = Some (r, s')
      \<longrightarrow> (\<exists>es. trace s' = trace s @ es \<and> snapshot_discipline es 0))
   \<and> (auth_removeurl_client ext auth_user s = Some (r, s')
      \<longrightarrow> (\<exists>es. trace s' = trace s @ es \<and> snapshot_discipline es 0))
   \<and> (url_stream_start ext auth_user s = Some (r, s')
      \<longrightarrow> (\<exists>es. trace s' = trace s @ es \<and> snapshot_discipline es 0))
   \<and> (url_stream_end ext auth_user s = Some (r, s')
      \<longrightarrow> (\<exists>es. trace s' = trace s @ es \<and> snapshot_discipline es 0))"
  using auth_addurl_client_trace [of ext auth_user s r s']
    auth_removeurl_client_trace [of ext auth_user s r s']
    url_stream_start_trace [of ext auth_user s r s']
    url_stream_end_trace [of ext auth_user s r s']
  by (blast intro: flow_events_discipline)

subsection \<open>Stream start and stream end\<close>

text \<open>
  C5. For a stream-start and a stream-end event on a mount whose authenticator is alive
  (its reference count is not zero), the flow returns, and the authenticator's reference
  count after the flow is its value before: whatever the transport answers, and also when
  no start or end URL is configured.
\<close>

theorem url_stream_refcount_balanced:
  assumes "client auth_user = None"
    "config_find_mount (config s) (mount auth_user) = Some mountinfo"
    "mount_auth mountinfo = Some a" "auths s a = Some x" "state x = Some url"
    "refcount x \<noteq> 0"
  shows "(\<exists>s' x'. url_stream_start ext auth_user s = Some (AUTH_OK, s')
            \<and> auths s' a = Some x' \<and> refcount x' = refcount x)
       \<and> (\<exists>s' x'. url_stream_end ext auth_user s = Some (AUTH_OK, s')
            \<and> auths s' a = Some x' \<and> refcount x' = refcount x)"
proof
  show "\<exists>s' x'. url_stream_start ext auth_user s = Some (AUTH_OK, s')
            \<and> auths s' a = Some x' \<and> refcount x' = refcount x"
  proof (cases "stream_start url")
    case None
    then show ?thesis
      using url_stream_start_no_url [OF assms(2-5) None, of ext] assms(4) by simp
  next
    case (Some u)
    then show ?thesis
      using url_stream_start_run [OF assms(1-5) Some, of ext] assms(6) by auto
  qed
  show "\<exists>s' x'. url_stream_end ext auth_user s = Some (AUTH_OK, s')
            \<and> auths s' a = Some x' \<and> refcount x' = refcount x"
  proof (cases "stream_end url")
    case None
    then show ?thesis
      using url_stream_end_no_url [OF assms(2-5) None, of ext] assms(4) by simp
  next
    case (Some u)
    then show ?thesis
      using url_stream_end_run [OF assms(1-5) Some, of ext] assms(6) by auto
  qed
qed

lemma url_stream_start_returns:
  assumes "client auth_user = None"
    "config_find_mount (config s) (mount auth_user) = Some mountinfo"
    "mount_auth mountinfo = Some a" "auths s a = Some x" "state x = Some url"
  shows "\<exists>s'. url_stream_start ext auth_user s = Some (AUTH_OK, s')"
proof (cases "stream_start url")
  case None
  then show ?thesis
    using url_stream_start_no_url [OF assms(2-5) None, of ext] by simp
next
  case (Some u)
  then show ?thesis
    using url_stream_start_run [OF assms Some, of ext] by auto
qed

lemma url_stream_end_returns:
  assumes "client auth_user = None"
    "config_find_mount (config s) (mount auth_user) = Some mountinfo"
    "mount_auth mountinfo = Some a" "auths s a = Some x" "state x = Some url"
  shows "\<exists>s'. url_stream_end ext auth_user s = Some (AUTH_OK, s')"
proof (cases "stream_end url")
  case None
  then show ?thesis
    using url_stream_end_no_url [OF assms(2-5) None, of ext] by simp
next
  case (Some u)
  then show ?thesis
    using url_stream_end_run [OF assms Some, of ext] by auto
qed

lemma url_stream_start_null:
  "config_find_mount (config s) (mount auth_user) = None
     \<or> (\<exists>mi. config_find_mount (config s) (mount auth_user) = Some mi \<and> mount_auth mi = None)
   \<Longrightarrow> url_stream_start ext auth_user s = None"
  by (auto simp: url_stream_start_def config_get_config_def)

lemma url_stream_end_null:
  "config_find_mount (config s) (mount auth_user) = None
     \<or> (\<exists>mi. config_find_mount (config s) (mount auth_user) = Some mi \<and> mount_auth mi = None)
   \<Longrightarrow> url_stream_end ext auth_user s = None"
  by (auto simp: url_stream_end_def config_get_config_def)

lemma url_stream_start_mount:
  assumes "url_stream_start ext auth_user s = Some y"
  shows "\<exists>mi a. config_find_mount (config s) (mount auth_user) = Some mi \<and> mount_auth mi = Some a"
proof (cases "config_find_mount (config s) (mount auth_user)")
  case None
  then show ?thesis
    using assms url_stream_start_null [of s auth_user ext] by simp
next
  case (Some mi)
  show ?thesis
  proof (cases "mount_auth mi")
    case None
    with Some show ?thesis
      using assms url_stream_start_null [of s auth_user ext] by simp
  next
    case (Some a)
    with \<open>config_find_mount (config s) (mount auth_user) = Some mi\<close> show ?thesis by blast
  qed
qed

lemma url_stream_end_mount:
  assumes "url_stream_end ext auth_user s = Some y"
  shows "\<exists>mi a. config_find_mount (config s) (mount auth_user) = Some mi \<and> mount_auth mi = Some a"
proof (cases "config_find_mount (config s) (mount auth_user)")
  case None
  then show ?thesis
    using assms url_stream_end_null [of s auth_user ext] by simp
next
  case (Some mi)
  show ?thesis
  proof (cases "mount_auth mi")
    case None
    with Some show ?thesis
      using assms url_stream_end_null [of s auth_user ext] by simp
  next
    case (Some a)
    with \<open>config_find_mount (config s) (mount auth_user) = Some mi\<close> show ?thesis by blast
  qed
qed

text \<open>
  C9. \<open>url_stream_start\<close> and \<open>url_stream_end\<close> dereference the result of
  \<open>config_find_mount\<close> and its authenticator without a check: for a mount that is absent
  from the configuration, and for a mount that is present with a null authenticator, the
  dereference is undefined and neither flow returns anything. With no client in the event
  and the authenticators of the configuration alive, the flows return exactly when the
  event's mount is in the configuration and has an authenticator, and then they return
  \<open>AUTH_OK\<close>.
\<close>

theorem url_stream_defined_iff_mount_has_auth:
  "(config_find_mount (config s) (mount auth_user) = None
      \<longrightarrow> url_stream_start ext auth_user s = None
          \<and> url_stream_end ext auth_user s = None)
   \<and> (\<forall>mi. config_find_mount (config s) (mount auth_user) = Some mi \<and> mount_auth mi = None
      \<longrightarrow> url_stream_start ext auth_user s = None
          \<and> url_stream_end ext auth_user s = None)
   \<and> (client auth_user = None
        \<and> (\<forall>mi a. config_find_mount (config s) (mount auth_user) = Some mi
                    \<and> mount_auth mi = Some a
                 \<longrightarrow> (\<exists>x url. auths s a = Some x \<and> state x = Some url))
      \<longrightarrow> ((\<exists>y. url_stream_start ext auth_user s = Some y)
             = (\<exists>mi a. config_find_mount (config s) (mount auth_user) = Some mi
                       \<and> mount_auth mi = Some a))
          \<and> ((\<exists>y. url_stream_end ext auth_user s = Some y)
             = (\<exists>mi a. config_find_mount (config s) (mount auth_user) = Some mi
                       \<and> mount_auth mi = Some a))
          \<and> ((\<exists>mi a. config_find_mount (config s) (mount auth_user) = Some mi
                       \<and> mount_auth mi = Some a)
             \<longrightarrow> (\<exists>s'. url_stream_start ext auth_user s = Some (AUTH_OK, s'))
                 \<and> (\<exists>s'. url_stream_end ext auth_user s = Some (AUTH_OK, s'))))"
proof (intro conjI allI impI)
  show "url_stream_start ext auth_user s = None"
    if "config_find_mount (config s) (mount auth_user) = None"
    using that url_stream_start_null [of s auth_user ext] by blast
  show "url_stream_end ext auth_user s = None"
    if "config_find_mount (config s) (mount auth_user) = None"
    using that url_stream_end_null [of s auth_user ext] by blast
  show "url_stream_start ext auth_user s = None"
    if "config_find_mount (config s) (mount auth_user) = Some mi \<and> mount_auth mi = None" for mi
    using that url_stream_start_null [of s auth_user ext] by blast
  show "url_stream_end ext auth_user s = None"
    if "config_find_mount (config s) (mount auth_user) = Some mi \<and> mount_auth mi = None" for mi
    using that url_stream_end_null [of s auth_user ext] by blast
next
  assume wf: "client auth_user = None
        \<and> (\<forall>mi a. config_find_mount (config s) (mount auth_user) = Some mi
                    \<and> mount_auth mi = Some a
                 \<longrightarrow> (\<exists>x url. auths s a = Some x \<and> state x = Some url))"
  have returns: "(\<exists>s'. url_stream_start ext auth_user s = Some (AUTH_OK, s'))
                 \<and> (\<exists>s'. url_stream_end ext auth_user s = Some (AUTH_OK, s'))"
    if "\<exists>mi a. config_find_mount (config s) (mount auth_user) = Some mi
                       \<and> mount_auth mi = Some a"
  proof -
    from that obtain mi a where m: "config_find_mount (config s) (mount auth_user) = Some mi"
      "mount_auth mi = Some a" by blast
    with wf obtain x url where h: "auths s a = Some x" "state x = Some url"
      by blast
    from wf have c: "client auth_user = None" by blast
    show ?thesis
      using url_stream_start_returns [OF c m h, of ext] url_stream_end_returns [OF c m h, of ext]
      by blast
  qed
  show "(\<exists>y. url_stream_start ext auth_user s = Some y)
             = (\<exists>mi a. config_find_mount (config s) (mount auth_user) = Some mi
                       \<and> mount_auth mi = Some a)"
    using returns url_stream_start_mount [of ext auth_user s] by blast
  show "(\<exists>y. url_stream_end ext auth_user s = Some y)
             = (\<exists>mi a. config_find_mount (config s) (mount auth_user) = Some mi
                       \<and> mount_auth mi = Some a)"
    using returns url_stream_end_mount [of ext auth_user s] by blast
  show "\<exists>s'. url_stream_start ext auth_user s = Some (AUTH_OK, s')"
    if "\<exists>mi a. config_find_mount (config s) (mount auth_user) = Some mi
                       \<and> mount_auth mi = Some a"
    using returns that by blast
  show "\<exists>s'. url_stream_end ext auth_user s = Some (AUTH_OK, s')"
    if "\<exists>mi a. config_find_mount (config s) (mount auth_user) = Some mi
                       \<and> mount_auth mi = Some a"
    using returns that by blast
qed

subsection \<open>The scenario\<close>

lemma scenario_listener:
  "client listener_event = Some 7"
  "clients (scenario h) 7 = Some listener"
  "auth listener = Some 1"
  "auths (scenario h) 1 = Some \<lparr>refcount = 1, state = Some url_auth\<rparr>"
  "state \<lparr>refcount = 1, state = Some url_auth\<rparr> = Some url_auth"
  by (simp_all add: listener_event_def scenario_def listener_def)

lemma scenario_source:
  "client source_event = None"
  "config_find_mount (config (scenario h)) (mount source_event) = Some \<lparr>mount_auth = Some 1\<rparr>"
  "mount_auth \<lparr>mount_auth = Some 1\<rparr> = Some 1"
  by (simp_all add: source_event_def scenario_def config_find_mount_def)

lemma url_auth_urls:
  "addurl url_auth = Some ''http://auth.example/a''"
  "removeurl url_auth = Some ''http://auth.example/r''"
  "stream_start url_auth = Some ''http://auth.example/s''"
  "stream_end url_auth = Some ''http://auth.example/e''"
  by (simp_all add: url_auth_def)

theorem config_snapshot_released_before_perform_witness:
  "(\<exists>r s' es. auth_addurl_client (stub [] 7) listener_event (scenario ''localhost'') = Some (r, s')
       \<and> trace s' = trace (scenario ''localhost'') @ es \<and> snapshot_discipline es 0)
   \<and> (\<exists>r s' es. auth_removeurl_client (stub [] 7) listener_event (scenario ''localhost'') = Some (r, s')
       \<and> trace s' = trace (scenario ''localhost'') @ es \<and> snapshot_discipline es 0)
   \<and> (\<exists>r s' es. url_stream_start (stub [] 7) source_event (scenario ''localhost'') = Some (r, s')
       \<and> trace s' = trace (scenario ''localhost'') @ es \<and> snapshot_discipline es 0)
   \<and> (\<exists>r s' es. url_stream_end (stub [] 7) source_event (scenario ''localhost'') = Some (r, s')
       \<and> trace s' = trace (scenario ''localhost'') @ es \<and> snapshot_discipline es 0)"
proof -
  let ?s = "scenario ''localhost''" and ?ext = "stub [] 7"
  have "\<exists>y. auth_addurl_client ?ext listener_event ?s = Some y"
    using auth_addurl_client_run [OF scenario_listener url_auth_urls(1), where ext = "stub [] 7"]
    by blast
  then obtain y where "auth_addurl_client ?ext listener_event ?s = Some y" ..
  then obtain r1 s1 where 1: "auth_addurl_client ?ext listener_event ?s = Some (r1, s1)"
    by (cases y) simp
  obtain s2 where 2: "auth_removeurl_client ?ext listener_event ?s = Some (AUTH_OK, s2)"
    using auth_removeurl_client_run [OF scenario_listener url_auth_urls(2), where ext = "stub [] 7"]
    by auto
  obtain s3 where 3: "url_stream_start ?ext source_event ?s = Some (AUTH_OK, s3)"
    using url_stream_start_returns [OF scenario_source scenario_listener(4,5), where ext = "stub [] 7"]
    by auto
  obtain s4 where 4: "url_stream_end ?ext source_event ?s = Some (AUTH_OK, s4)"
    using url_stream_end_returns [OF scenario_source scenario_listener(4,5), where ext = "stub [] 7"]
    by auto
  show ?thesis
    using config_snapshot_released_before_perform [of ?ext listener_event ?s r1 s1]
      config_snapshot_released_before_perform [of ?ext listener_event ?s AUTH_OK s2]
      config_snapshot_released_before_perform [of ?ext source_event ?s AUTH_OK s3]
      config_snapshot_released_before_perform [of ?ext source_event ?s AUTH_OK s4]
      1 2 3 4
    by simp
qed

theorem url_stream_refcount_balanced_witness:
  "client source_event = None
   \<and> config_find_mount (config (scenario ''localhost'')) (mount source_event)
       = Some \<lparr>mount_auth = Some 1\<rparr>
   \<and> auths (scenario ''localhost'') 1 = Some \<lparr>refcount = 1, state = Some url_auth\<rparr>
   \<and> refcount \<lparr>refcount = 1, state = Some url_auth\<rparr> \<noteq> 0
   \<and> (\<exists>s' x'. url_stream_start (stub [] 7) source_event (scenario ''localhost'') = Some (AUTH_OK, s')
            \<and> auths s' 1 = Some x' \<and> refcount x' = 1)
   \<and> (\<exists>s' x'. url_stream_end (stub [] 7) source_event (scenario ''localhost'') = Some (AUTH_OK, s')
            \<and> auths s' 1 = Some x' \<and> refcount x' = 1)"
  using url_stream_refcount_balanced [where ext = "stub [] 7" and s = "scenario ''localhost''",
      OF scenario_source scenario_listener(4,5)] scenario_source scenario_listener(4)
  by simp

theorem url_stream_defined_iff_mount_has_auth_witness:
  "(\<exists>s'. url_stream_start (stub [] 0) source_event (scenario ''localhost'') = Some (AUTH_OK, s'))
   \<and> (\<exists>s'. url_stream_end (stub [] 0) source_event (scenario ''localhost'') = Some (AUTH_OK, s'))
   \<and> url_stream_start (stub [] 0) (source_event\<lparr>mount := ''/absent''\<rparr>) (scenario ''localhost'') = None
   \<and> url_stream_end (stub [] 0) (source_event\<lparr>mount := ''/absent''\<rparr>) (scenario ''localhost'') = None
   \<and> url_stream_start (stub [] 0) source_event
        ((scenario ''localhost'')
           \<lparr>config := \<lparr>hostname = ''localhost'', mounts = [(''/live'', \<lparr>mount_auth = None\<rparr>)]\<rparr>\<rparr>)
       = None
   \<and> url_stream_end (stub [] 0) source_event
        ((scenario ''localhost'')
           \<lparr>config := \<lparr>hostname = ''localhost'', mounts = [(''/live'', \<lparr>mount_auth = None\<rparr>)]\<rparr>\<rparr>)
       = None"
proof -
  let ?s = "scenario ''localhost''"
  let ?absent = "source_event\<lparr>mount := ''/absent''\<rparr>"
  let ?n = "(scenario ''localhost'')
           \<lparr>config := \<lparr>hostname = ''localhost'', mounts = [(''/live'', \<lparr>mount_auth = None\<rparr>)]\<rparr>\<rparr>"
  have present: "client source_event = None"
    "config_find_mount (config ?s) (mount source_event) = Some \<lparr>mount_auth = Some 1\<rparr>"
    "\<forall>mi a. config_find_mount (config ?s) (mount source_event) = Some mi
                    \<and> mount_auth mi = Some a
                 \<longrightarrow> (\<exists>x url. auths ?s a = Some x \<and> state x = Some url)"
    by (auto simp: source_event_def scenario_def config_find_mount_def)
  have absent: "config_find_mount (config ?s) (mount ?absent) = None"
    by (simp add: source_event_def scenario_def config_find_mount_def)
  have null: "config_find_mount (config ?n) (mount source_event) = Some \<lparr>mount_auth = None\<rparr>"
    by (simp add: source_event_def scenario_def config_find_mount_def)
  note p = url_stream_defined_iff_mount_has_auth [where ext = "stub [] 0" and s = ?s
      and auth_user = source_event, THEN conjunct2, THEN conjunct2, rule_format]
  note a = url_stream_defined_iff_mount_has_auth [where ext = "stub [] 0" and s = ?s
      and auth_user = ?absent, THEN conjunct1, rule_format, OF absent]
  note n = url_stream_defined_iff_mount_has_auth [where ext = "stub [] 0" and s = ?n
      and auth_user = source_event, THEN conjunct2, THEN conjunct1, rule_format]
  have 1: "(\<exists>s'. url_stream_start (stub [] 0) source_event ?s = Some (AUTH_OK, s'))
     \<and> (\<exists>s'. url_stream_end (stub [] 0) source_event ?s = Some (AUTH_OK, s'))"
    using p present by auto
  have 3: "url_stream_start (stub [] 0) source_event ?n = None
     \<and> url_stream_end (stub [] 0) source_event ?n = None"
    using n [of "\<lparr>mount_auth = None\<rparr>"] null by simp
  from 1 a 3 show ?thesis by blast
qed

subsection \<open>Comparing header lines\<close>

lemma tolower_eq_nul: "(tolower c = CHR 0x00) = (c = CHR 0x00)"
proof -
  have "char_of (of_char c + 32 :: nat) \<noteq> CHR 0x00"
    if "65 \<le> (of_char c :: nat)" "(of_char c :: nat) \<le> 90"
  proof
    assume "char_of (of_char c + 32 :: nat) = CHR 0x00"
    then have "(of_char (char_of (of_char c + 32 :: nat)) :: nat) = of_char (CHR 0x00)"
      by simp
    then show False
      using that by (simp add: of_char_of)
  qed
  moreover have "\<not> (65 \<le> (of_char (CHR 0x00) :: nat))"
    by simp
  ultimately show ?thesis
    by (auto simp: tolower_def)
qed

lemma tolower_nul: "tolower (CHR 0x00) = CHR 0x00"
  by (simp add: tolower_def)

lemma of_char_eq_0: "((of_char x :: nat) = 0) = (x = CHR 0x00)"
proof -
  have "((of_char x :: nat) = of_char (CHR 0x00)) = (x = CHR 0x00)"
    by (simp only: of_char_eq_iff)
  then show ?thesis by simp
qed

lemma strncasecmp_eq_0_iff:
  assumes "CHR 0x00 \<notin> set h"
  shows "(strncasecmp l h (length h) = 0) = prefix_matches_ci h l"
  using assms
proof (induction h arbitrary: l)
  case Nil
  then show ?case by (simp add: prefix_matches_ci_def)
next
  case (Cons c h)
  then have c: "tolower c \<noteq> CHR 0x00" and h: "CHR 0x00 \<notin> set h"
    by (auto simp: tolower_eq_nul)
  show ?case
  proof (cases l)
    case Nil
    then show ?thesis
      using c of_char_eq_0 [of "tolower c"]
      by (auto simp: prefix_matches_ci_def front_def Let_def tolower_nul)
  next
    case (Cons d l')
    show ?thesis
      using c Cons.IH [OF h, of l'] Cons
      by (auto simp: prefix_matches_ci_def front_def Let_def)
  qed
qed

lemma options_loop_header:
  "''header'' \<notin> fst ` set opts \<Longrightarrow> auth_header (options_loop opts u) = auth_header u"
  by (induction opts u rule: options_loop.induct) (auto simp: Let_def)

subsection \<open>Machine arithmetic\<close>

lemma ucast_small:
  fixes sz nmemb :: "64 word"
  assumes "unat sz * unat nmemb < 2 ^ 31"
  shows "sint (ucast (sz * nmemb) :: 32 word) = int (unat sz * unat nmemb)"
proof -
  have m: "unat (sz * nmemb) = unat sz * unat nmemb"
    using assms by (simp add: unat_word_ariths)
  have "unat (ucast (sz * nmemb) :: 32 word) = take_bit 32 (unat (sz * nmemb))"
    by (simp add: unsigned_ucast_eq)
  also have "\<dots> = unat sz * unat nmemb"
    using assms by (simp add: m take_bit_nat_eq_self)
  finally have un: "unat (ucast (sz * nmemb) :: 32 word) = unat sz * unat nmemb" .
  have u: "uint (ucast (sz * nmemb) :: 32 word) = int (unat sz * unat nmemb)"
    by (simp only: uint_nat un)
  have "sint (ucast (sz * nmemb) :: 32 word)
        = signed_take_bit 31 (uint (ucast (sz * nmemb) :: 32 word))"
    by (simp add: sint_uint)
  also have "\<dots> = int (unat sz * unat nmemb)"
    unfolding u using assms
    by (intro signed_take_bit_int_eq_self) (simp_all flip: of_nat_mult add: order.strict_implies_order)
  finally show ?thesis .
qed




lemma handle_returned_header_result:
  "handle_returned_header ptr sz nmemb w s = Some (r, s') \<Longrightarrow> r = ucast (sz * nmemb)"
  by (auto simp: handle_returned_header_def Let_def split: option.splits bind_splits if_splits)

lemma auth_get_url_auth_registers:
  assumes "auths s0 a = Some au0"
  shows "auth_get_url_auth True a opts s0
         = Some (0, s0\<lparr>auths := (auths s0)(a \<mapsto> au0\<lparr>state := Some
             ((options_loop opts
                \<lparr>addurl = None, removeurl = None, stream_start = None, stream_end = None,
                 url_username = None, url_password = None,
                 auth_header = ''icecast-auth-user: 1'' @ [CHR 0x0D, CHR 0x0A],
                 auth_header_len = 0,
                 handle = \<lparr>CURLOPT_URL = None, CURLOPT_POSTFIELDS = None,
                           CURLOPT_WRITEHEADER = None\<rparr>\<rparr>)
              \<lparr>auth_header_len := int (length (auth_header (options_loop opts
                \<lparr>addurl = None, removeurl = None, stream_start = None, stream_end = None,
                 url_username = None, url_password = None,
                 auth_header = ''icecast-auth-user: 1'' @ [CHR 0x0D, CHR 0x0A],
                 auth_header_len = 0,
                 handle = \<lparr>CURLOPT_URL = None, CURLOPT_POSTFIELDS = None,
                           CURLOPT_WRITEHEADER = None\<rparr>\<rparr>)))\<rparr>)\<rparr>)\<rparr>)"
  using assms by (simp add: auth_get_url_auth_def Let_def)

subsection \<open>The verdict of the header callback\<close>

text \<open>
  C4, as the code has it. For every header line offered to \<open>handle_returned_header\<close>
  during the event of a client whose authenticator is alive, the client's authenticated
  flag is set to 1 exactly when the line matches the configured header ignoring case, over
  the whole length of that header; a line that does not match leaves the state as it is.
  The header that \<open>auth_get_url_auth\<close> configures when no \<open>header\<close> option is given is
  \<open>icecast-auth-user: 1\<close> followed by CR LF, 22 characters, so that a line such as
  \<open>icecast-auth-user: 10\<close> does not match. The stored length is the length of the header.
\<close>

theorem handle_returned_header_verdict:
  assumes "client auth_user = Some p" "clients s p = Some cl" "auth cl = Some a"
    "auths s a = Some x" "state x = Some url"
    "auth_header_len url = int (length (auth_header url))"
    "CHR 0x00 \<notin> set (auth_header url)"
  shows "handle_returned_header line sz nmemb auth_user s =
           Some (ucast (sz * nmemb),
                 if prefix_matches_ci (auth_header url) line
                 then s\<lparr>clients := (clients s)(p \<mapsto> cl\<lparr>authenticated := 1\<rparr>)\<rparr> else s)
       \<and> (\<forall>au0 opts s0. auths s0 a = Some au0 \<longrightarrow>
            (\<exists>s1 au1 url1. auth_get_url_auth True a opts s0 = Some (0, s1)
               \<and> auths s1 a = Some au1 \<and> state au1 = Some url1
               \<and> auth_header_len url1 = int (length (auth_header url1))
               \<and> (''header'' \<notin> fst ` set opts \<longrightarrow>
                    auth_header url1 = ''icecast-auth-user: 1'' @ [CHR 0x0D, CHR 0x0A]
                    \<and> auth_header_len url1 = 22)))"
proof
  have "header_matches url line = prefix_matches_ci (auth_header url) line"
    using strncasecmp_eq_0_iff [OF assms(7), of line] assms(6)
    by (simp add: header_matches_def)
  then show "handle_returned_header line sz nmemb auth_user s =
           Some (ucast (sz * nmemb),
                 if prefix_matches_ci (auth_header url) line
                 then s\<lparr>clients := (clients s)(p \<mapsto> cl\<lparr>authenticated := 1\<rparr>)\<rparr> else s)"
    using handle_returned_header_client [OF assms(1-5), of line sz nmemb]
    by (simp add: admit_def)
next
  show "\<forall>au0 opts s0. auths s0 a = Some au0 \<longrightarrow>
            (\<exists>s1 au1 url1. auth_get_url_auth True a opts s0 = Some (0, s1)
               \<and> auths s1 a = Some au1 \<and> state au1 = Some url1
               \<and> auth_header_len url1 = int (length (auth_header url1))
               \<and> (''header'' \<notin> fst ` set opts \<longrightarrow>
                    auth_header url1 = ''icecast-auth-user: 1'' @ [CHR 0x0D, CHR 0x0A]
                    \<and> auth_header_len url1 = 22))"
  proof (intro allI impI)
    fix au0 :: auth_t and opts :: "(string \<times> string) list" and s0 :: sys
    assume "auths s0 a = Some au0"
    from auth_get_url_auth_registers [OF this, of opts]
    show "\<exists>s1 au1 url1. auth_get_url_auth True a opts s0 = Some (0, s1)
               \<and> auths s1 a = Some au1 \<and> state au1 = Some url1
               \<and> auth_header_len url1 = int (length (auth_header url1))
               \<and> (''header'' \<notin> fst ` set opts \<longrightarrow>
                    auth_header url1 = ''icecast-auth-user: 1'' @ [CHR 0x0D, CHR 0x0A]
                    \<and> auth_header_len url1 = 22)"
      by (simp add: options_loop_header)
  qed
qed

theorem handle_returned_header_verdict_witness:
  "handle_returned_header (''ICECAST-AUTH-USER: 1'' @ [CHR 0x0D, CHR 0x0A]) 1 22 listener_event
     (scenario ''localhost'')
   = Some (22, (scenario ''localhost'')\<lparr>clients := [7 \<mapsto> listener\<lparr>authenticated := 1\<rparr>]\<rparr>)
   \<and> handle_returned_header (''icecast-auth-user: 10'' @ [CHR 0x0D, CHR 0x0A]) 1 23 listener_event
     (scenario ''localhost'')
   = Some (23, scenario ''localhost'')"
proof -
  have h: "auth_header_len url_auth = int (length (auth_header url_auth))"
    "CHR 0x00 \<notin> set (auth_header url_auth)"
    by (simp_all add: url_auth_def)
  have m: "prefix_matches_ci (auth_header url_auth) (''ICECAST-AUTH-USER: 1'' @ [CHR 0x0D, CHR 0x0A])"
    "\<not> prefix_matches_ci (auth_header url_auth) (''icecast-auth-user: 10'' @ [CHR 0x0D, CHR 0x0A])"
    by code_simp+
  have c: "(clients (scenario ''localhost''))(7 \<mapsto> listener\<lparr>authenticated := 1\<rparr>)
           = [7 \<mapsto> listener\<lparr>authenticated := 1\<rparr>]"
    by (simp add: scenario_def)
  show ?thesis
    using handle_returned_header_verdict [OF scenario_listener h,
        where line = "''ICECAST-AUTH-USER: 1'' @ [CHR 0x0D, CHR 0x0A]" and sz = 1 and nmemb = 22]
      handle_returned_header_verdict [OF scenario_listener h,
        where line = "''icecast-auth-user: 10'' @ [CHR 0x0D, CHR 0x0A]" and sz = 1 and nmemb = 23]
      m c
    by simp
qed

text \<open>
  With the default configuration, the line \<open>icecast-auth-user: 10\<close> CR LF matches the
  prefix \<open>icecast-auth-user: 1\<close> ignoring case, and the callback leaves the flag at 0.
\<close>

theorem handle_returned_header_default_prefix_counterexample:
  "prefix_matches_ci ''icecast-auth-user: 1'' (''icecast-auth-user: 10'' @ [CHR 0x0D, CHR 0x0A])
   \<and> map_option authenticated (clients registered 7) = Some 0
   \<and> map_option (\<lambda>(r, s). (r, map_option authenticated (clients s 7)))
        (handle_returned_header (''icecast-auth-user: 10'' @ [CHR 0x0D, CHR 0x0A]) 1 23
           listener_event registered)
      = Some (23, Some 0)"
  by code_simp

subsection \<open>The byte count of the header callback\<close>

text \<open>
  C10, as the code has it. When the event context carries no client,
  \<open>handle_returned_header\<close> leaves the state as it is. In every case where it returns, and
  it returns for no client and for a client whose authenticator is alive, the result is
  \<open>size * nmemb\<close> narrowed to \<^verbatim>\<open>unsigned\<close> and then to \<^verbatim>\<open>int\<close>; that is the byte count
  itself when the count is below \<open>2\<^sup>3\<^sup>1\<close>.
\<close>

theorem handle_returned_header_count:
  "(client auth_user = None
      \<longrightarrow> handle_returned_header ptr sz nmemb auth_user s = Some (ucast (sz * nmemb), s))
   \<and> (handle_returned_header ptr sz nmemb auth_user s = Some (r, s')
      \<longrightarrow> r = ucast (sz * nmemb)
          \<and> (unat sz * unat nmemb < 2 ^ 31 \<longrightarrow> sint r = int (unat sz * unat nmemb)))
   \<and> (client auth_user = Some p \<and> clients s p = Some cl \<and> auth cl = Some a
        \<and> auths s a = Some x \<and> state x = Some url
      \<longrightarrow> (\<exists>s'. handle_returned_header ptr sz nmemb auth_user s = Some (ucast (sz * nmemb), s')))"
  using handle_returned_header_no_client [of auth_user ptr sz nmemb s]
    handle_returned_header_result [of ptr sz nmemb auth_user s r s']
    handle_returned_header_client [of auth_user p s cl a x url ptr sz nmemb]
    ucast_small [of sz nmemb]
  by auto

theorem handle_returned_header_count_witness:
  "handle_returned_header (''HTTP/1.1 200 OK'' @ [CHR 0x0D, CHR 0x0A]) 1 17 source_event
     (scenario ''localhost'') = Some (17, scenario ''localhost'')
   \<and> sint (17 :: c_int) = 17
   \<and> (\<exists>s'. handle_returned_header (''HTTP/1.1 200 OK'' @ [CHR 0x0D, CHR 0x0A]) 1 17 listener_event
     (scenario ''localhost'') = Some (17, s'))"
  using handle_returned_header_count [of source_event "''HTTP/1.1 200 OK'' @ [CHR 0x0D, CHR 0x0A]"
      1 17 "scenario ''localhost''" 17 "scenario ''localhost''"]
    handle_returned_header_count [of listener_event "''HTTP/1.1 200 OK'' @ [CHR 0x0D, CHR 0x0A]"
      1 17 "scenario ''localhost''" 17 "scenario ''localhost''" 7 listener 1
      "\<lparr>refcount = 1, state = Some url_auth\<rparr>" url_auth]
    scenario_source(1) scenario_listener
  by simp

text \<open>
  For a header line of \<open>2\<^sup>3\<^sup>1\<close> bytes the returned \<^verbatim>\<open>int\<close> is \<open>- 2\<^sup>3\<^sup>1\<close>, not the byte count.
\<close>

theorem handle_returned_header_count_narrowed:
  "length long_line = 2147483648
   \<and> map_option (sint \<circ> fst)
        (handle_returned_header long_line 1 (of_nat (length long_line)) source_event
           (scenario ''localhost''))
      = Some (- 2147483648)"
proof -
  have l: "length long_line = 2147483648"
    by (simp add: long_line_def)
  have "handle_returned_header long_line 1 2147483648 source_event (scenario ''localhost'')
        = Some (ucast (1 * 2147483648 :: size_t), scenario ''localhost'')"
    by (rule handle_returned_header_no_client) (rule scenario_source(1))
  then show ?thesis
    by (simp add: l)
qed

subsection \<open>The bodies of the add and remove requests\<close>

lemma bodies_append: "bodies (xs @ ys) = bodies xs @ bodies ys"
  by (induction xs rule: bodies.induct) simp_all

lemma posted_auth_addurl_client:
  assumes "client auth_user = Some p" "clients s p = Some cl" "auth cl = Some a"
    "auths s a = Some x" "state x = Some url" "addurl url = Some u"
  shows "posted (auth_addurl_client ext auth_user s) =
         bodies (trace s) @
         [snprintf 1024
               (''action=auth&server='' @ util_url_escape ext (hostname (config s))
                @ ''&client='' @ fmt_lu (unat (con_id (con cl)))
                @ ''&mount='' @ util_url_escape ext (mount auth_user)
                @ ''&user='' @ util_url_escape ext (username cl)
                @ ''&pass='' @ util_url_escape ext (password cl)
                @ ''&ip='' @ util_url_escape ext (ip (con cl))
                @ ''&agent='' @ util_url_escape ext (case user_agent cl of None \<Rightarrow> ''-'' | Some v \<Rightarrow> v))]"
  by (simp add: auth_addurl_client_run [OF assms] posted_def bodies_append WARN2_def
      delivered_def admit_def request_def del: append.simps append_Cons)

lemma posted_auth_removeurl_client:
  assumes "client auth_user = Some p" "clients s p = Some cl" "auth cl = Some a"
    "auths s a = Some x" "state x = Some url" "removeurl url = Some u"
  shows "posted (auth_removeurl_client ext auth_user s) =
         bodies (trace s) @
         [snprintf 1024
               (''action=remove&server='' @ util_url_escape ext (hostname (config s))
                @ ''client='' @ fmt_lu (unat (con_id (con cl)))
                @ ''&mount='' @ util_url_escape ext (mount auth_user)
                @ ''&user='' @ util_url_escape ext (username cl)
                @ ''&pass='' @ util_url_escape ext (password cl)
                @ ''&duration='' @ fmt_lu (unat (now s - con_time (con cl))))]"
proof -
  from auth_removeurl_client_run [OF assms, of ext] obtain s' where
    "auth_removeurl_client ext auth_user s = Some (AUTH_OK, s')"
    "trace s' = trace s @ [ConfigGet, ConfigRelease, Perform u
       (snprintf 1024
               (''action=remove&server='' @ util_url_escape ext (hostname (config s))
                @ ''client='' @ fmt_lu (unat (con_id (con cl)))
                @ ''&mount='' @ util_url_escape ext (mount auth_user)
                @ ''&user='' @ util_url_escape ext (username cl)
                @ ''&pass='' @ util_url_escape ext (password cl)
                @ ''&duration='' @ fmt_lu (unat (now s - con_time (con cl)))))
       (snd (curl_response ext u (snprintf 1024
               (''action=remove&server='' @ util_url_escape ext (hostname (config s))
                @ ''client='' @ fmt_lu (unat (con_id (con cl)))
                @ ''&mount='' @ util_url_escape ext (mount auth_user)
                @ ''&user='' @ util_url_escape ext (username cl)
                @ ''&pass='' @ util_url_escape ext (password cl)
                @ ''&duration='' @ fmt_lu (unat (now s - con_time (con cl)))))))]
       @ (if snd (curl_response ext u (snprintf 1024
               (''action=remove&server='' @ util_url_escape ext (hostname (config s))
                @ ''client='' @ fmt_lu (unat (con_id (con cl)))
                @ ''&mount='' @ util_url_escape ext (mount auth_user)
                @ ''&user='' @ util_url_escape ext (username cl)
                @ ''&pass='' @ util_url_escape ext (password cl)
                @ ''&duration='' @ fmt_lu (unat (now s - con_time (con cl)))))) \<noteq> 0
          then [Warn u] else [])"
    by blast
  then show ?thesis
    by (simp add: posted_def bodies_append del: append.simps append_Cons)
qed



lemma url_escape_examples:
  "url_escape ''localhost'' = ''localhost''"
  "url_escape ''/live'' = ''%2Flive''"
  "url_escape ''fred'' = ''fred''"
  "url_escape ''hunter2'' = ''hunter2''"
  "url_escape ''127.0.0.1'' = ''127.0.0.1''"
  "url_escape ''TestAgent/1.0'' = ''TestAgent%2F1.0''"
  by code_simp+

lemma fmt_lu_examples:
  "fmt_lu 42 = ''42''"
  "fmt_lu 3600 = ''3600''"
  "fmt_lu 18446744073709551606 = ''18446744073709551606''"
  by (simp_all add: fmt_lu.simps)

lemma scenario_fields:
  "now (scenario h) = 4600" "trace (scenario h) = []" "hostname (config (scenario h)) = h"
  "con_time (con listener) = 1000" "con_id (con listener) = 42" "ip (con listener) = ''127.0.0.1''"
  "user_agent listener = Some ''TestAgent/1.0''"
  "username listener = ''fred''" "password listener = ''hunter2''"
  "mount listener_event = ''/live''" "util_url_escape (stub hs res) = url_escape"
  by (simp_all add: scenario_def listener_def listener_event_def stub_def)

text \<open>
  C2. The body that the remove flow posts for the listener of the scenario (host
  \<open>localhost\<close>, connection id 42, mount \<open>/live\<close>, connected for 3600 seconds): the format
  string has no \<open>&\<close> between the server field and the client field, so the host name and
  \<open>client=\<close> run together.
\<close>

theorem auth_removeurl_client_body_example:
  "posted (auth_removeurl_client (stub [] 0) listener_event (scenario ''localhost''))
   = [''action=remove&server=localhostclient=42&mount=%2Flive&user=fred&pass=hunter2&duration=3600'']"
  using posted_auth_removeurl_client [where s = "scenario ''localhost''" and ext = "stub [] 0",
      OF scenario_listener url_auth_urls(2)]
  by (simp add: scenario_fields url_escape_examples fmt_lu_examples snprintf_def)


text \<open>
  C3. With no remove-URL configured the remove flow returns \<open>AUTH_OK\<close> at its first test
  and changes nothing: the client of the scenario still points to its authenticator, and
  the authenticator's reference count has not been released.
\<close>

theorem auth_removeurl_client_no_url_example:
  "auth_removeurl_client (stub [] 0) listener_event no_remove_scenario
     = Some (AUTH_OK, no_remove_scenario)
   \<and> map_option auth (clients no_remove_scenario 7) = Some (Some 1)
   \<and> map_option refcount (auths no_remove_scenario 1) = Some 1"
proof -
  have "auth_removeurl_client (stub [] 0) listener_event no_remove_scenario
     = Some (AUTH_OK, no_remove_scenario)"
    by (rule auth_removeurl_client_no_url [where p = 7 and cl = listener and a = 1
          and x = "\<lparr>refcount = 1, state = Some (url_auth\<lparr>removeurl := None\<rparr>)\<rparr>"
          and url = "url_auth\<lparr>removeurl := None\<rparr>"])
       (simp_all add: listener_event_def no_remove_scenario_def scenario_def listener_def)
  then show ?thesis
    by (simp add: no_remove_scenario_def scenario_def listener_def)
qed



lemma length_url_escape: "length src \<le> length (url_escape src)"
proof (induction src)
  case Nil
  then show ?case by (simp add: url_escape_def)
next
  case (Cons c src)
  then show ?case by (simp add: url_escape_def)
qed

text \<open>
  C6, as the code has it. For an add event with connection id 42, ip 127.0.0.1,
  user-agent TestAgent/1.0, mount /live, username fred and password hunter2, with the
  escaper of the specification, the body posted by \<open>auth_addurl_client\<close> is the first 1023
  characters of \<open>action=auth&server=<escaped-host>&client=42&mount=%2Flive&user=fred\<close>
  \<open>&pass=hunter2&ip=127.0.0.1&agent=TestAgent%2F1.0\<close>; it is exactly that text when the
  escaped host name has at most 922 characters.
\<close>

theorem auth_addurl_client_scenario_body:
  assumes "client auth_user = Some p" "clients s p = Some cl" "auth cl = Some a"
    "auths s a = Some x" "state x = Some url" "addurl url = Some u"
    "util_url_escape ext = url_escape"
    "con_id (con cl) = 42" "ip (con cl) = ''127.0.0.1''"
    "user_agent cl = Some ''TestAgent/1.0''" "mount auth_user = ''/live''"
    "username cl = ''fred''" "password cl = ''hunter2''"
  shows "posted (auth_addurl_client ext auth_user s) =
           bodies (trace s) @
           [take 1023 (''action=auth&server='' @ url_escape (hostname (config s))
              @ ''&client=42&mount=%2Flive&user=fred&pass=hunter2&ip=127.0.0.1&agent=TestAgent%2F1.0'')]
       \<and> (length (url_escape (hostname (config s))) \<le> 922 \<longrightarrow>
            posted (auth_addurl_client ext auth_user s) =
              bodies (trace s) @
              [''action=auth&server='' @ url_escape (hostname (config s))
               @ ''&client=42&mount=%2Flive&user=fred&pass=hunter2&ip=127.0.0.1&agent=TestAgent%2F1.0''])"
proof -
  have n: "unat (42 :: c_ulong) = 42" by simp
  have body: "posted (auth_addurl_client ext auth_user s) =
           bodies (trace s) @
           [take 1023 (''action=auth&server='' @ url_escape (hostname (config s))
              @ ''&client=42&mount=%2Flive&user=fred&pass=hunter2&ip=127.0.0.1&agent=TestAgent%2F1.0'')]"
    using posted_auth_addurl_client [OF assms(1-6), of ext]
    by (simp add: assms(7-13) n url_escape_examples fmt_lu_examples snprintf_def)
  moreover have "take 1023 (''action=auth&server='' @ url_escape (hostname (config s))
              @ ''&client=42&mount=%2Flive&user=fred&pass=hunter2&ip=127.0.0.1&agent=TestAgent%2F1.0'')
        = ''action=auth&server='' @ url_escape (hostname (config s))
              @ ''&client=42&mount=%2Flive&user=fred&pass=hunter2&ip=127.0.0.1&agent=TestAgent%2F1.0''"
    if "length (url_escape (hostname (config s))) \<le> 922"
    by (rule take_all) (use that in simp)
  ultimately show ?thesis by simp
qed

theorem auth_addurl_client_scenario_body_witness:
  "posted (auth_addurl_client (stub [] 0) listener_event (scenario ''localhost''))
   = [''action=auth&server=localhost&client=42&mount=%2Flive&user=fred&pass=hunter2&ip=127.0.0.1&agent=TestAgent%2F1.0'']"
  using auth_addurl_client_scenario_body [where s = "scenario ''localhost''"
      and ext = "stub [] 0", OF scenario_listener url_auth_urls(1) scenario_fields(11)
        scenario_fields(5) scenario_fields(6) scenario_fields(7) scenario_fields(10)
        scenario_fields(8) scenario_fields(9)]
  by (simp add: scenario_fields url_escape_examples)

text \<open>
  With a host name of 1000 characters the posted body is not the full text: the buffer
  of 1024 bytes cuts it.
\<close>

theorem auth_addurl_client_body_truncated:
  "posted (auth_addurl_client (stub [] 0) listener_event (scenario long_host))
   \<noteq> [''action=auth&server='' @ url_escape long_host
        @ ''&client=42&mount=%2Flive&user=fred&pass=hunter2&ip=127.0.0.1&agent=TestAgent%2F1.0'']"
proof -
  let ?full = "''action=auth&server='' @ url_escape long_host
        @ ''&client=42&mount=%2Flive&user=fred&pass=hunter2&ip=127.0.0.1&agent=TestAgent%2F1.0''"
  have n: "unat (42 :: c_ulong) = 42" by simp
  have "posted (auth_addurl_client (stub [] 0) listener_event (scenario long_host))
        = [take 1023 ?full]"
    using posted_auth_addurl_client [where s = "scenario long_host" and ext = "stub [] 0",
        OF scenario_listener url_auth_urls(1)]
    by (simp add: scenario_fields n url_escape_examples fmt_lu_examples snprintf_def)
  moreover have "length (take 1023 ?full) \<le> 1023"
    by simp
  moreover have "1000 \<le> length (url_escape long_host)"
    using length_url_escape [of long_host] by (simp add: long_host_def)
  then have "1023 < length ?full"
    by simp
  ultimately show ?thesis
    by (metis list.inject not_less)
qed

end
